theory Spec2Isabelle
  imports Complex_Main
begin

section \<open>Style values and the cascade\<close>

text \<open>
  The layout engine of \<open>ui_layout_debug.js\<close> (class \<open>UILayout\<close> and its debugging
  subclass \<open>UILayoutDebug\<close>) is embedded function by function. JavaScript numbers are
  modelled as real numbers: arithmetic is exact and every number is finite. The places
  where the source can leave the finite numbers are written out: \<open>parseFloat\<close> yielding
  NaN is \<open>None\<close>; a grow share divided by a zero grow total is an infinite number, which
  the bounds of the grow loop are compared with as JavaScript compares them; a size that
  is still no finite number after that comparison is an error result of the layouters.

  A value of a parsed style is a number or a string (\<open>convertValue\<close> returns nothing
  else). A property that the source tests with \<open>typeof\<close>, reads with \<open>parseFloat\<close> or
  compares with a number is read as the source reads it. A property that the source
  uses in arithmetic without any test (box sides, gap, bounds, offsets) is read as a
  number; a string stored under such a property, which JavaScript would coerce or
  concatenate, is read like an undeclared property, and a string that \<open>parseFloat\<close>
  turns into \<open>Infinity\<close> has no number here. The predicate \<open>modelled\<close> below holds of
  the styles that hold neither; the statements about arbitrary styles that depend on
  such values assume it.
\<close>

datatype jsval = Num real | Str string

text \<open>The result of \<open>parseStyle\<close>: the entries of \<open>computedStyle\<close> in the order of
  \<open>Object.entries\<close>, and the list \<open>importantProperties\<close>.\<close>

record styleObj =
  computedStyle :: "(string \<times> jsval) list"
  importantProperties :: "string list"

type_synonym style = "string \<Rightarrow> jsval option"

text \<open>One iteration of the inner loop of \<open>mergeStyles\<close>: the accumulator is
  \<open>finalStyle\<close> with the set \<open>appliedImportantProps\<close>.\<close>

definition applyProp ::
  "string list \<Rightarrow> string \<times> jsval \<Rightarrow> style \<times> string set \<Rightarrow> style \<times> string set" where
  "applyProp imps e acc =
     (let prop = fst e; val = snd e; finalStyle = fst acc; applied = snd acc;
          isCurrentPropImportant = (prop \<in> set imps)
      in if prop \<notin> applied \<or> isCurrentPropImportant
         then (finalStyle(prop \<mapsto> val),
               if isCurrentPropImportant then insert prop applied else applied)
         else (finalStyle, applied))"

text \<open>The body of the outer loop; a missing style object (\<open>None\<close>) is skipped.\<close>

definition mergeOne :: "styleObj option \<Rightarrow> style \<times> string set \<Rightarrow> style \<times> string set" where
  "mergeOne so acc =
     (case so of
        None \<Rightarrow> acc
      | Some obj \<Rightarrow> fold (applyProp (importantProperties obj)) (computedStyle obj) acc)"

definition mergeStyles :: "styleObj option list \<Rightarrow> style" where
  "mergeStyles styleObjects = fst (fold mergeOne styleObjects (Map.empty, {}))"

text \<open>\<open>String.prototype.split(" ")\<close> and the test \<open>c.trim()\<close> of the class filter. A
  character of a string is a code unit below 256; the white space that \<open>trim\<close>,
  \<open>parseFloat\<close> and \<open>Number\<close> strip is, among these, the space, the no-break space and
  the characters from tab to carriage return.\<close>

fun split_space :: "string \<Rightarrow> string list" where
  "split_space [] = [[]]"
| "split_space (c # cs) =
     (if c = CHR '' '' then [] # split_space cs
      else (case split_space cs of
              [] \<Rightarrow> [[c]]
            | w # ws \<Rightarrow> (c # w) # ws))"

definition is_space :: "char \<Rightarrow> bool" where
  "is_space c = (c \<in> set [CHR '' '', CHR 0x09, CHR 0x0A, CHR 0x0B, CHR 0x0C, CHR 0x0D, CHR 0xA0])"

definition blank :: "string \<Rightarrow> bool" where
  "blank s = list_all is_space s"

text \<open>
  A node of the host scene graph. The attribute \<open>instVars.style\<close> is kept as the result
  of \<open>parseStyle\<close> on its text (\<open>None\<close> for the empty text); \<open>doLayoutFalse\<close> says that
  \<open>instVars.doLayout === false\<close>; \<open>layoutOrder\<close> is \<open>_layoutOrder || 0\<close>; \<open>computedStyles\<close>
  is the scratch field \<open>_computedStyles\<close>. Nodes are named by numbers.
\<close>

record inst =
  ix :: real
  iy :: real
  iwidth :: real
  iheight :: real
  isVisible :: bool
  doLayoutFalse :: bool
  tags :: "string list"
  parent :: "nat option"
  children :: "nat list"
  classes :: string
  inlineStyle :: "styleObj option"
  layoutOrder :: real
  computedStyles :: "style option"

type_synonym registry = "string \<Rightarrow> styleObj option"

definition classNames :: "inst \<Rightarrow> string list" where
  "classNames i = filter (\<lambda>c. \<not> blank c) (split_space (classes i))"

definition stylesToMerge :: "registry \<Rightarrow> inst \<Rightarrow> styleObj option list" where
  "stylesToMerge reg i =
     map reg (filter (\<lambda>c. reg c \<noteq> None) (classNames i))
     @ (case inlineStyle i of None \<Rightarrow> [] | Some s \<Rightarrow> [Some s])"

definition getInstanceStyles :: "registry \<Rightarrow> inst \<Rightarrow> style" where
  "getInstanceStyles reg i = mergeStyles (stylesToMerge reg i)"

text \<open>A class attribute that lists the given names, separated by single spaces.\<close>

fun joinSpace :: "string list \<Rightarrow> string" where
  "joinSpace [] = []"
| "joinSpace [c] = c"
| "joinSpace (c # d # cs) = c @ CHR '' '' # joinSpace (d # cs)"

text \<open>
  The cascade in the words of the specification: every declaration of the merged
  sources is a write (property, value, importance), in list order; the value of a
  property is that of its last important write if it has one, and of its last write
  otherwise.
\<close>

definition writesOf :: "styleObj option \<Rightarrow> (string \<times> jsval \<times> bool) list" where
  "writesOf so =
     (case so of
        None \<Rightarrow> []
      | Some obj \<Rightarrow>
          map (\<lambda>e. (fst e, snd e, fst e \<in> set (importantProperties obj))) (computedStyle obj))"

definition cascadeWinner :: "string \<Rightarrow> (string \<times> jsval \<times> bool) list \<Rightarrow> jsval option" where
  "cascadeWinner P ws =
     (let mine = filter (\<lambda>w. fst w = P) ws;
          important = filter (\<lambda>w. snd (snd w)) mine
      in if important \<noteq> [] then Some (fst (snd (last important)))
         else if mine \<noteq> [] then Some (fst (snd (last mine)))
         else None)"

section \<open>Reading style values\<close>

text \<open>JavaScript truthiness of a property (\<open>undefined\<close>, \<open>0\<close> and the empty string are
  falsy), the idiom \<open>v || d\<close> on values, and the test
  \<open>v && typeof v === "string" && v.endsWith("%")\<close>.\<close>

definition truthy :: "jsval option \<Rightarrow> bool" where
  "truthy v = (case v of None \<Rightarrow> False | Some (Num r) \<Rightarrow> r \<noteq> 0 | Some (Str s) \<Rightarrow> s \<noteq> [])"

definition orElse :: "jsval option \<Rightarrow> jsval \<Rightarrow> jsval" where
  "orElse v d = (if truthy v then the v else d)"

definition isPercent :: "jsval option \<Rightarrow> bool" where
  "isPercent v = (case v of Some (Str s) \<Rightarrow> s \<noteq> [] \<and> last s = CHR ''%'' | _ \<Rightarrow> False)"

text \<open>A numeric property: the number it holds, \<open>None\<close> when it is not declared.\<close>

definition numOf :: "jsval option \<Rightarrow> real option" where
  "numOf v = (case v of Some (Num r) \<Rightarrow> Some r | _ \<Rightarrow> None)"

text \<open>\<open>a ?? b ?? 0\<close>, \<open>a ?? b ?? c ?? 0\<close> and \<open>a || d\<close> on numeric properties.\<close>

definition nullish2 :: "jsval option \<Rightarrow> jsval option \<Rightarrow> real" where
  "nullish2 a b =
     (case numOf a of Some r \<Rightarrow> r | None \<Rightarrow> (case numOf b of Some r \<Rightarrow> r | None \<Rightarrow> 0))"

definition nullish3 :: "jsval option \<Rightarrow> jsval option \<Rightarrow> jsval option \<Rightarrow> real" where
  "nullish3 a b c = (case numOf a of Some r \<Rightarrow> r | None \<Rightarrow> nullish2 b c)"

definition numOr :: "jsval option \<Rightarrow> real \<Rightarrow> real" where
  "numOr v d = (case numOf v of Some r \<Rightarrow> (if r = 0 then d else r) | None \<Rightarrow> d)"

text \<open>
  \<open>parseFloat\<close>. On a string it reads the longest prefix that is a decimal literal
  (optional sign, digits, optional fraction, optional exponent) after leading white
  space; \<open>None\<close> is NaN. On a number it returns the number, on \<open>undefined\<close> NaN. The
  strings that the source turns into an infinite number (\<open>parsesInfinite\<close> below) have
  no value here: the spelling \<open>Infinity\<close> is read as NaN, a literal beyond the finite
  numbers as its exact value.
\<close>

definition is_digit :: "char \<Rightarrow> bool" where
  "is_digit c = (48 \<le> (of_char c :: nat) \<and> (of_char c :: nat) \<le> 57)"

definition digitsValue :: "string \<Rightarrow> nat" where
  "digitsValue ds = foldl (\<lambda>a c. 10 * a + ((of_char c :: nat) - 48)) 0 ds"

definition exponentPart :: "string \<Rightarrow> (bool \<times> nat) option" where
  "exponentPart s =
     (case s of
        [] \<Rightarrow> None
      | c # r \<Rightarrow>
          if c = CHR ''e'' \<or> c = CHR ''E'' then
            (let neg = (r \<noteq> [] \<and> hd r = CHR ''-'');
                 r' = (if r \<noteq> [] \<and> (hd r = CHR ''-'' \<or> hd r = CHR ''+'') then tl r else r);
                 ds = takeWhile is_digit r'
             in if ds = [] then None else Some (neg, digitsValue ds))
          else None)"

definition parseFloat_str :: "string \<Rightarrow> real option" where
  "parseFloat_str s =
     (let t = dropWhile is_space s;
          neg = (t \<noteq> [] \<and> hd t = CHR ''-'');
          u = (if t \<noteq> [] \<and> (hd t = CHR ''-'' \<or> hd t = CHR ''+'') then tl t else t);
          ip = takeWhile is_digit u;
          r1 = dropWhile is_digit u;
          dot = (r1 \<noteq> [] \<and> hd r1 = CHR ''.'');
          fp = (if dot then takeWhile is_digit (tl r1) else []);
          r2 = (if dot then dropWhile is_digit (tl r1) else r1);
          m = real (digitsValue ip) + real (digitsValue fp) / 10 ^ length fp;
          v = (case exponentPart r2 of
                 None \<Rightarrow> m
               | Some (eneg, e) \<Rightarrow> if eneg then m / 10 ^ e else m * 10 ^ e)
      in if ip = [] \<and> fp = [] then None else Some (if neg then - v else v))"

definition parseFloat :: "jsval option \<Rightarrow> real option" where
  "parseFloat v =
     (case v of None \<Rightarrow> None | Some (Num r) \<Rightarrow> Some r | Some (Str s) \<Rightarrow> parseFloat_str s)"

text \<open>\<open>parseFloat(v) || d\<close>: NaN and \<open>0\<close> are falsy.\<close>

definition nanOr :: "real option \<Rightarrow> real \<Rightarrow> real" where
  "nanOr p d = (case p of None \<Rightarrow> d | Some r \<Rightarrow> (if r = 0 then d else r))"

text \<open>
  The strings that \<open>parseFloat\<close> turns into an infinite number: the spelling
  \<open>Infinity\<close> after white space and a sign, and a decimal literal that rounds to
  \<open>Infinity\<close> (from \<open>2^1024 - 2^970\<close> on).
\<close>

definition infinitySpelling :: "string \<Rightarrow> bool" where
  "infinitySpelling s =
     (let t = dropWhile is_space s;
          u = (if t \<noteq> [] \<and> (hd t = CHR ''-'' \<or> hd t = CHR ''+'') then tl t else t)
      in take 8 u = ''Infinity'')"

definition parsesInfinite :: "string \<Rightarrow> bool" where
  "parsesInfinite s =
     (infinitySpelling s
      \<or> (case parseFloat_str s of Some v \<Rightarrow> \<bar>v\<bar> \<ge> 2 ^ 1024 - 2 ^ 970 | None \<Rightarrow> False))"

text \<open>
  The styles within the numbers of this model: no string under a property that the
  source uses in arithmetic without testing its type, and no string that \<open>parseFloat\<close>
  turns into an infinite number under a property that the source reads with it.
\<close>

definition numericProperties :: "string list" where
  "numericProperties =
     [''margin'', ''marginTop'', ''marginRight'', ''marginBottom'', ''marginLeft'',
      ''padding'', ''paddingTop'', ''paddingRight'', ''paddingBottom'', ''paddingLeft'',
      ''border'', ''borderWidth'', ''borderTopWidth'', ''borderRightWidth'',
      ''borderBottomWidth'', ''borderLeftWidth'',
      ''gap'', ''columns'', ''top'', ''right'', ''bottom'', ''left'',
      ''anchorOffsetX'', ''anchorOffsetY'',
      ''minWidth'', ''maxWidth'', ''minHeight'', ''maxHeight'',
      ''percentWidth'', ''percentHeight'']"

definition parsedProperties :: "string list" where
  "parsedProperties = [''width'', ''height'', ''flexBasis'', ''flexGrow'', ''flexShrink'']"

definition modelled :: "style \<Rightarrow> bool" where
  "modelled st =
     (list_all (\<lambda>k. case st k of Some (Str s) \<Rightarrow> False | _ \<Rightarrow> True) numericProperties
      \<and> list_all (\<lambda>k. case st k of Some (Str s) \<Rightarrow> \<not> parsesInfinite s | _ \<Rightarrow> True)
            parsedProperties)"

text \<open>
  The test \<open>v && v > 0\<close>. A number passes when it is positive. A string passes when it
  is not empty and \<open>Number\<close> converts it to a positive number: after trimming, it is
  \<open>Infinity\<close> or \<open>+Infinity\<close>, or a binary, octal or hexadecimal literal with a digit other
  than \<open>0\<close>, or an unsigned or \<open>+\<close>-signed decimal literal (digits with an optional
  fraction, or a fraction alone, and an optional exponent) whose value does not round to
  \<open>0\<close>, that is, lies above \<open>2^-1075\<close>. Any other string converts to NaN, \<open>0\<close> or a
  negative number.
\<close>

definition trim :: "string \<Rightarrow> string" where
  "trim s = rev (dropWhile is_space (rev (dropWhile is_space s)))"

definition is_hexDigit :: "char \<Rightarrow> bool" where
  "is_hexDigit c =
     (is_digit c \<or> (97 \<le> (of_char c :: nat) \<and> (of_char c :: nat) \<le> 102)
      \<or> (65 \<le> (of_char c :: nat) \<and> (of_char c :: nat) \<le> 70))"

definition is_octalDigit :: "char \<Rightarrow> bool" where
  "is_octalDigit c = (48 \<le> (of_char c :: nat) \<and> (of_char c :: nat) \<le> 55)"

definition is_binaryDigit :: "char \<Rightarrow> bool" where
  "is_binaryDigit c = (c = CHR ''0'' \<or> c = CHR ''1'')"

text \<open>A literal with a radix prefix: \<open>None\<close> when the string is none, otherwise whether
  its value is positive.\<close>

definition nonDecimalPositive :: "string \<Rightarrow> bool option" where
  "nonDecimalPositive t =
     (case t of
        z # x # ds \<Rightarrow>
          if z = CHR ''0'' \<and> ds \<noteq> [] \<and>
             (((x = CHR ''x'' \<or> x = CHR ''X'') \<and> list_all is_hexDigit ds)
              \<or> ((x = CHR ''o'' \<or> x = CHR ''O'') \<and> list_all is_octalDigit ds)
              \<or> ((x = CHR ''b'' \<or> x = CHR ''B'') \<and> list_all is_binaryDigit ds))
          then Some (list_ex (\<lambda>c. c \<noteq> CHR ''0'') ds)
          else None
      | _ \<Rightarrow> None)"

text \<open>An exponent that makes up the whole rest of a literal (the empty rest is the
  exponent \<open>0\<close>), and the value of an unsigned decimal literal that makes up the whole
  string.\<close>

definition exponentOf :: "string \<Rightarrow> (bool \<times> nat) option" where
  "exponentOf s =
     (case s of
        [] \<Rightarrow> Some (False, 0)
      | c # r \<Rightarrow>
          if c = CHR ''e'' \<or> c = CHR ''E'' then
            (let neg = (r \<noteq> [] \<and> hd r = CHR ''-'');
                 r' = (if r \<noteq> [] \<and> (hd r = CHR ''-'' \<or> hd r = CHR ''+'') then tl r else r)
             in if r' \<noteq> [] \<and> list_all is_digit r' then Some (neg, digitsValue r') else None)
          else None)"

definition decimalLiteral :: "string \<Rightarrow> real option" where
  "decimalLiteral u =
     (let ip = takeWhile is_digit u;
          r1 = dropWhile is_digit u;
          dot = (r1 \<noteq> [] \<and> hd r1 = CHR ''.'');
          fp = (if dot then takeWhile is_digit (tl r1) else []);
          r2 = (if dot then dropWhile is_digit (tl r1) else r1);
          m = real (digitsValue ip) + real (digitsValue fp) / 10 ^ length fp
      in if ip = [] \<and> fp = [] then None
         else (case exponentOf r2 of
                 None \<Rightarrow> None
               | Some (eneg, e) \<Rightarrow> Some (if eneg then m / 10 ^ e else m * 10 ^ e)))"

definition numberPositive :: "string \<Rightarrow> bool" where
  "numberPositive s =
     (let t = trim s
      in if t = ''Infinity'' \<or> t = ''+Infinity'' then True
         else (case nonDecimalPositive t of
                 Some b \<Rightarrow> b
               | None \<Rightarrow>
                  (case decimalLiteral (if t \<noteq> [] \<and> hd t = CHR ''+'' then tl t else t) of
                     Some v \<Rightarrow> v > 1 / 2 ^ 1075
                   | None \<Rightarrow> False)))"

definition jsPositive :: "jsval option \<Rightarrow> bool" where
  "jsPositive v =
     (case v of
        None \<Rightarrow> False
      | Some (Num r) \<Rightarrow> r > 0
      | Some (Str s) \<Rightarrow> s \<noteq> [] \<and> numberPositive s)"

section \<open>Box model, layout properties and the node store\<close>

record sides =
  s_top :: real
  s_right :: real
  s_bottom :: real
  s_left :: real

record boxModel =
  margin :: sides
  padding :: sides
  border :: sides

text \<open>The table computed by \<open>getBoxModel\<close> from a computed style.\<close>

definition boxOf :: "style \<Rightarrow> boxModel" where
  "boxOf st =
     \<lparr> margin = \<lparr> s_top = nullish2 (st ''marginTop'') (st ''margin''),
                   s_right = nullish2 (st ''marginRight'') (st ''margin''),
                   s_bottom = nullish2 (st ''marginBottom'') (st ''margin''),
                   s_left = nullish2 (st ''marginLeft'') (st ''margin'') \<rparr>,
        padding = \<lparr> s_top = nullish2 (st ''paddingTop'') (st ''padding''),
                    s_right = nullish2 (st ''paddingRight'') (st ''padding''),
                    s_bottom = nullish2 (st ''paddingBottom'') (st ''padding''),
                    s_left = nullish2 (st ''paddingLeft'') (st ''padding'') \<rparr>,
        border = \<lparr> s_top = nullish3 (st ''borderTopWidth'') (st ''borderWidth'') (st ''border''),
                   s_right = nullish3 (st ''borderRightWidth'') (st ''borderWidth'') (st ''border''),
                   s_bottom = nullish3 (st ''borderBottomWidth'') (st ''borderWidth'') (st ''border''),
                   s_left = nullish3 (st ''borderLeftWidth'') (st ''borderWidth'') (st ''border'') \<rparr> \<rparr>"

text \<open>
  The engine object (\<open>this\<close>): the class registry and the instances of
  \<open>runtime.objects\<close> in the order the tag search visits them. The store maps a node
  name to the node.
\<close>

record engine =
  registeredClasses :: registry
  runtimeObjects :: "nat list"

type_synonym world = "nat \<Rightarrow> inst"

text \<open>The idiom \<open>if (!instance._computedStyles) instance._computedStyles =
  this.getInstanceStyles(instance)\<close>, and the read \<open>instance._computedStyles || {}\<close>.\<close>

definition ensureStyles :: "engine \<Rightarrow> world \<Rightarrow> nat \<Rightarrow> world" where
  "ensureStyles eng w i =
     (case computedStyles (w i) of
        Some s \<Rightarrow> w
      | None \<Rightarrow> w(i := (w i)\<lparr>computedStyles := Some (getInstanceStyles (registeredClasses eng) (w i))\<rparr>))"

definition stylesOf :: "world \<Rightarrow> nat \<Rightarrow> style" where
  "stylesOf w i = (case computedStyles (w i) of Some s \<Rightarrow> s | None \<Rightarrow> Map.empty)"

text \<open>\<open>getBoxModel\<close> fills the scratch field and reads it; the callers below thread the
  filled store with \<open>ensureStyles\<close>.\<close>

definition getBoxModel :: "engine \<Rightarrow> world \<Rightarrow> nat \<Rightarrow> boxModel" where
  "getBoxModel eng w i = boxOf (stylesOf (ensureStyles eng w i) i)"

definition getOuterWidth :: "engine \<Rightarrow> world \<Rightarrow> nat \<Rightarrow> real" where
  "getOuterWidth eng w i =
     (let b = getBoxModel eng w i in iwidth (w i) + s_left (margin b) + s_right (margin b))"

definition getOuterHeight :: "engine \<Rightarrow> world \<Rightarrow> nat \<Rightarrow> real" where
  "getOuterHeight eng w i =
     (let b = getBoxModel eng w i in iheight (w i) + s_top (margin b) + s_bottom (margin b))"

record layoutProps =
  lp_display :: jsval
  lp_position :: jsval
  lp_gap :: real
  lp_padding :: real
  lp_alignItems :: jsval
  lp_justifyContent :: jsval
  lp_columns :: real
  lp_fitContent :: bool
  lp_top :: "real option"
  lp_right :: "real option"
  lp_bottom :: "real option"
  lp_left :: "real option"
  lp_anchorTarget :: "jsval option"
  lp_anchorPoint :: jsval
  lp_selfAnchor :: jsval
  lp_anchorOffsetX :: real
  lp_anchorOffsetY :: real

definition propsOf :: "style \<Rightarrow> layoutProps" where
  "propsOf st =
     \<lparr> lp_display = orElse (st ''display'') (Str ''vertical''),
       lp_position = orElse (st ''position'') (Str ''relative''),
       lp_gap = numOr (st ''gap'') 0,
       lp_padding = numOr (st ''padding'') 0,
       lp_alignItems = orElse (st ''alignItems'') (orElse (st ''alignment'') (Str ''start'')),
       lp_justifyContent = orElse (st ''justifyContent'') (Str ''start''),
       lp_columns = numOr (st ''columns'') 2,
       lp_fitContent = truthy (st ''fitContent''),
       lp_top = numOf (st ''top''),
       lp_right = numOf (st ''right''),
       lp_bottom = numOf (st ''bottom''),
       lp_left = numOf (st ''left''),
       lp_anchorTarget = st ''anchorTarget'',
       lp_anchorPoint = orElse (st ''anchorPoint'') (Str ''center''),
       lp_selfAnchor = orElse (st ''selfAnchor'') (Str ''center''),
       lp_anchorOffsetX = numOr (st ''anchorOffsetX'') 0,
       lp_anchorOffsetY = numOr (st ''anchorOffsetY'') 0 \<rparr>"

definition getLayoutProperties :: "engine \<Rightarrow> world \<Rightarrow> nat \<Rightarrow> layoutProps" where
  "getLayoutProperties eng w i = propsOf (stylesOf (ensureStyles eng w i) i)"

section \<open>Sizing a node from its style\<close>

text \<open>\<open>applyMinMaxConstraints\<close>: four guarded assignments in the order of the source (its
  result record of two flags is read by no caller and is left out).\<close>

definition applyMinMaxConstraints :: "inst \<Rightarrow> style \<Rightarrow> inst" where
  "applyMinMaxConstraints i st =
     (let i1 = (case numOf (st ''minWidth'') of
                  Some mn \<Rightarrow> if iwidth i < mn then i\<lparr>iwidth := mn\<rparr> else i
                | None \<Rightarrow> i);
          i2 = (case numOf (st ''maxWidth'') of
                  Some mx \<Rightarrow> if iwidth i1 > mx then i1\<lparr>iwidth := mx\<rparr> else i1
                | None \<Rightarrow> i1);
          i3 = (case numOf (st ''minHeight'') of
                  Some mn \<Rightarrow> if iheight i2 < mn then i2\<lparr>iheight := mn\<rparr> else i2
                | None \<Rightarrow> i2);
          i4 = (case numOf (st ''maxHeight'') of
                  Some mx \<Rightarrow> if iheight i3 > mx then i3\<lparr>iheight := mx\<rparr> else i3
                | None \<Rightarrow> i3)
      in i4)"

text \<open>The content box of a parent, as every percentage computation writes it.\<close>

definition availableWidth :: "inst \<Rightarrow> boxModel \<Rightarrow> real" where
  "availableWidth p b =
     iwidth p - s_left (padding b) - s_right (padding b) - s_left (border b) - s_right (border b)"

definition availableHeight :: "inst \<Rightarrow> boxModel \<Rightarrow> real" where
  "availableHeight p b =
     iheight p - s_top (padding b) - s_bottom (padding b) - s_top (border b) - s_bottom (border b)"

text \<open>The value \<open>"percentWidth" in styles ? styles.percentWidth : parseFloat(styles.width) || 0\<close>;
  \<open>None\<close> is a value that fails the test \<open>percentValue > 0\<close> for not being a number.\<close>

definition percentValue :: "jsval option \<Rightarrow> jsval option \<Rightarrow> real option" where
  "percentValue pct sz =
     (case pct of Some v \<Rightarrow> numOf (Some v) | None \<Rightarrow> Some (nanOr (parseFloat sz) 0))"

definition isPositive :: "real option \<Rightarrow> bool" where
  "isPositive p = (case p of Some r \<Rightarrow> r > 0 | None \<Rightarrow> False)"

definition isHorizontalStyle :: "style \<Rightarrow> bool" where
  "isHorizontalStyle st = (st ''display'' = Some (Str ''horizontal''))"

definition isVerticalStyle :: "style \<Rightarrow> bool" where
  "isVerticalStyle st = (st ''display'' = Some (Str ''vertical'') \<or> \<not> truthy (st ''display''))"

definition applyPercentageSizing :: "engine \<Rightarrow> world \<Rightarrow> nat \<Rightarrow> world" where
  "applyPercentageSizing eng w i =
     (case computedStyles (w i) of
        None \<Rightarrow> w
      | Some st \<Rightarrow>
         (case parent (w i) of
            None \<Rightarrow> w
          | Some p \<Rightarrow>
             (let w0 = ensureStyles eng w p;
                  pb = boxOf (stylesOf w0 p);
                  pw = percentValue (st ''percentWidth'') (st ''width'');
                  w1 = (if (st ''percentWidth'' \<noteq> None \<or> isPercent (st ''width'')) \<and> isPositive pw
                        then w0(i := (w0 i)\<lparr>iwidth := availableWidth (w0 p) pb * the pw / 100\<rparr>)
                        else w0);
                  ph = percentValue (st ''percentHeight'') (st ''height'');
                  w2 = (if (st ''percentHeight'' \<noteq> None \<or> isPercent (st ''height'')) \<and> isPositive ph
                        then w1(i := (w1 i)\<lparr>iheight := availableHeight (w1 p) pb * the ph / 100\<rparr>)
                        else w1);
                  fb = nanOr (parseFloat (st ''flexBasis'')) 0;
                  w3 = (if isPercent (st ''flexBasis'') \<and> fb > 0
                        then (if isHorizontalStyle st
                              then w2(i := (w2 i)\<lparr>iwidth := availableWidth (w2 p) pb * fb / 100\<rparr>)
                              else if isVerticalStyle st
                              then w2(i := (w2 i)\<lparr>iheight := availableHeight (w2 p) pb * fb / 100\<rparr>)
                              else w2)
                        else w2)
              in w3(i := applyMinMaxConstraints (w3 i) st))))"

text \<open>\<open>applyStylesToInstance\<close>. A numeric \<open>flex\<close> is expanded into the style object, which is
  also the object stored in the scratch field.\<close>

definition expandFlex :: "style \<Rightarrow> style" where
  "expandFlex st =
     (case st ''flex'' of
        Some (Num r) \<Rightarrow> st(''flexGrow'' \<mapsto> Num r, ''flexShrink'' \<mapsto> Num 1, ''flexBasis'' \<mapsto> Str ''0px'')
      | _ \<Rightarrow> st)"

text \<open>The last block of \<open>applyStylesToInstance\<close>, "apply min/max constraints after explicit
  sizing": \<open>Math.max\<close> with the declared minimum, then \<open>Math.min\<close> with the declared
  maximum, for the width and for the height.\<close>

definition clampSize :: "inst \<Rightarrow> style \<Rightarrow> inst" where
  "clampSize i st =
     (let i3 = (case numOf (st ''minWidth'') of
                  Some mn \<Rightarrow> i\<lparr>iwidth := max (iwidth i) mn\<rparr> | None \<Rightarrow> i);
          i4 = (case numOf (st ''maxWidth'') of
                  Some mx \<Rightarrow> i3\<lparr>iwidth := min (iwidth i3) mx\<rparr> | None \<Rightarrow> i3);
          i5 = (case numOf (st ''minHeight'') of
                  Some mn \<Rightarrow> i4\<lparr>iheight := max (iheight i4) mn\<rparr> | None \<Rightarrow> i4);
          i6 = (case numOf (st ''maxHeight'') of
                  Some mx \<Rightarrow> i5\<lparr>iheight := min (iheight i5) mx\<rparr> | None \<Rightarrow> i5)
      in i6)"

definition applyStylesToInstance :: "engine \<Rightarrow> world \<Rightarrow> nat \<Rightarrow> style \<Rightarrow> world" where
  "applyStylesToInstance eng w i styles =
     (let st = expandFlex styles;
          wa = w(i := (w i)\<lparr>computedStyles := Some st\<rparr>);
          wb = (case parent (wa i) of
                  None \<Rightarrow> wa
                | Some p \<Rightarrow>
                   (let pw = percentValue (st ''percentWidth'') (st ''width'');
                        doW = ((st ''percentWidth'' \<noteq> None \<or> isPercent (st ''width'')) \<and> isPositive pw);
                        w0 = (if doW then ensureStyles eng wa p else wa);
                        w1 = (if doW
                              then w0(i := (w0 i)\<lparr>iwidth :=
                                     availableWidth (w0 p) (boxOf (stylesOf w0 p)) * the pw / 100\<rparr>)
                              else w0);
                        ph = percentValue (st ''percentHeight'') (st ''height'');
                        doH = ((st ''percentHeight'' \<noteq> None \<or> isPercent (st ''height'')) \<and> isPositive ph);
                        w2 = (if doH then ensureStyles eng w1 p else w1)
                    in if doH
                       then w2(i := (w2 i)\<lparr>iheight :=
                              availableHeight (w2 p) (boxOf (stylesOf w2 p)) * the ph / 100\<rparr>)
                       else w2));
          wc = (case numOf (st ''flexBasis'') of
                  Some fb \<Rightarrow>
                    if parent (wb i) \<noteq> None \<and> fb \<noteq> 0
                    then (if isHorizontalStyle st then wb(i := (wb i)\<lparr>iwidth := fb\<rparr>)
                          else if isVerticalStyle st then wb(i := (wb i)\<lparr>iheight := fb\<rparr>)
                          else wb)
                    else wb
                | None \<Rightarrow> wb);
          i1 = (case numOf (st ''width'') of Some v \<Rightarrow> (wc i)\<lparr>iwidth := v\<rparr> | None \<Rightarrow> wc i);
          i2 = (case numOf (st ''height'') of Some v \<Rightarrow> i1\<lparr>iheight := v\<rparr> | None \<Rightarrow> i1)
      in wc(i := clampSize i2 st))"

section \<open>Out-of-flow positioning\<close>

definition positionAbsolute :: "engine \<Rightarrow> world \<Rightarrow> nat \<Rightarrow> layoutProps \<Rightarrow> world" where
  "positionAbsolute eng w i lp =
     (case parent (w i) of
        None \<Rightarrow> w
      | Some p \<Rightarrow>
         (let w1 = ensureStyles eng w p;
              pb = boxOf (stylesOf w1 p);
              w2 = ensureStyles eng w1 i;
              ib = boxOf (stylesOf w2 i);
              par = w2 p;
              me = w2 i;
              contentLeft = ix par + s_left (padding pb) + s_left (border pb);
              contentTop = iy par + s_top (padding pb) + s_top (border pb);
              contentRight = ix par + iwidth par - s_right (padding pb) - s_right (border pb);
              contentBottom = iy par + iheight par - s_bottom (padding pb) - s_bottom (border pb);
              x = (case lp_left lp of
                     Some l \<Rightarrow> contentLeft + l + s_left (margin ib)
                   | None \<Rightarrow>
                      (case lp_right lp of
                         Some r \<Rightarrow> contentRight - r - iwidth me - s_right (margin ib)
                       | None \<Rightarrow> contentLeft + s_left (margin ib)));
              y = (case lp_top lp of
                     Some t \<Rightarrow> contentTop + t + s_top (margin ib)
                   | None \<Rightarrow>
                      (case lp_bottom lp of
                         Some b \<Rightarrow> contentBottom - b - iheight me - s_bottom (margin ib)
                       | None \<Rightarrow> contentTop + s_top (margin ib)))
          in w2(i := me\<lparr>ix := x, iy := y\<rparr>)))"

text \<open>The offsets of the \<open>switch\<close> of \<open>getAnchorPoint\<close>, and the function itself: with
  \<open>returnOffset\<close> it returns the offsets, otherwise the point in world space.\<close>

definition anchorOffsets :: "inst \<Rightarrow> jsval \<Rightarrow> real \<times> real" where
  "anchorOffsets i anchor =
     (if anchor = Str ''top-left'' then (0, 0)
      else if anchor = Str ''top'' \<or> anchor = Str ''top-center'' then (iwidth i / 2, 0)
      else if anchor = Str ''top-right'' then (iwidth i, 0)
      else if anchor = Str ''left'' \<or> anchor = Str ''center-left'' then (0, iheight i / 2)
      else if anchor = Str ''center'' then (iwidth i / 2, iheight i / 2)
      else if anchor = Str ''right'' \<or> anchor = Str ''center-right'' then (iwidth i, iheight i / 2)
      else if anchor = Str ''bottom-left'' then (0, iheight i)
      else if anchor = Str ''bottom'' \<or> anchor = Str ''bottom-center'' then (iwidth i / 2, iheight i)
      else if anchor = Str ''bottom-right'' then (iwidth i, iheight i)
      else (iwidth i / 2, iheight i / 2))"

definition getAnchorPoint :: "inst \<Rightarrow> jsval \<Rightarrow> bool \<Rightarrow> real \<times> real" where
  "getAnchorPoint i anchor returnOffset =
     (let off = anchorOffsets i anchor
      in if returnOffset then off else (ix i + fst off, iy i + snd off))"

text \<open>The target of an anchored node: the parent when \<open>anchorTarget\<close> is falsy or the
  string \<open>parent\<close>, the first instance carrying the tag for another string. For a
  number other than 0 the source evaluates \<open>anchorTarget instanceof
  this.runtime.objects.WorldInstance\<close>, whose outcome lies with the host (a handle of a
  node cannot come out of the style parser, and without such a constructor the test
  throws); the model has no target there.\<close>

definition anchorTargetOf :: "engine \<Rightarrow> world \<Rightarrow> nat \<Rightarrow> layoutProps \<Rightarrow> nat option" where
  "anchorTargetOf eng w i lp =
     (if \<not> truthy (lp_anchorTarget lp) then parent (w i)
      else (case lp_anchorTarget lp of
              Some (Str s) \<Rightarrow>
                if s = ''parent'' then parent (w i)
                else find (\<lambda>j. s \<in> set (tags (w j))) (runtimeObjects eng)
            | _ \<Rightarrow> None))"

definition positionAnchor :: "engine \<Rightarrow> world \<Rightarrow> nat \<Rightarrow> layoutProps \<Rightarrow> world" where
  "positionAnchor eng w i lp =
     (case anchorTargetOf eng w i lp of
        None \<Rightarrow> w
      | Some t \<Rightarrow>
         (let originalX = ix (w i);
              originalY = iy (w i);
              targetPoint = getAnchorPoint (w t) (lp_anchorPoint lp) False;
              selfPoint = getAnchorPoint (w i) (lp_selfAnchor lp) True;
              offsetX = fst targetPoint - (originalX + fst selfPoint) + lp_anchorOffsetX lp;
              offsetY = snd targetPoint - (originalY + snd selfPoint) + lp_anchorOffsetY lp
          in w(i := (w i)\<lparr>ix := originalX + offsetX, iy := originalY + offsetY\<rparr>)))"

text \<open>\<open>applyOutOfFlowLayout\<close>: the \<open>switch\<close> on the position of the node's layout properties.\<close>

definition applyOutOfFlowLayout :: "engine \<Rightarrow> world \<Rightarrow> nat \<Rightarrow> world" where
  "applyOutOfFlowLayout eng w i =
     (let w1 = ensureStyles eng w i;
          lp = propsOf (stylesOf w1 i)
      in if lp_position lp = Str ''absolute'' then positionAbsolute eng w1 i lp
         else if lp_position lp = Str ''anchor'' then positionAnchor eng w1 i lp
         else w1)"

section \<open>Flex distribution\<close>

text \<open>
  The ways a layout pass of the model stops without a result: the source would store a
  size that is no finite number (a grow share divided by a zero grow total that no bound
  brings back), or the fuel of the recursion over the tree is used up.
\<close>

datatype failure = NonFinite | OutOfFuel

text \<open>
  A flex item as \<open>layoutVertical\<close> and \<open>layoutHorizontal\<close> build it; \<open>fi_base\<close>,
  \<open>fi_min\<close>, \<open>fi_max\<close> and \<open>fi_target\<close> are the fields \<open>baseWidth\<close>, \<open>minWidth\<close>, \<open>maxWidth\<close>
  and \<open>targetWidth\<close> (or their height namesakes), \<open>fi_constrained\<close> is membership in the
  set \<open>constrainedItems\<close>. The field \<open>fi_flexShrink\<close> is the result of
  \<open>parseFloat(childStyles.flexShrink)\<close>, NaN (\<open>None\<close>) when the property is not declared:
  the test \<open>typeof flexShrink === "undefined"\<close> of the source never holds for a result of
  \<open>parseFloat\<close>, so \<open>actualFlexShrink\<close> is that result.
\<close>

record flexItem =
  fi_instance :: nat
  fi_boxModel :: boxModel
  fi_flexGrow :: real
  fi_flexShrink :: "real option"
  fi_base :: real
  fi_min :: "real option"
  fi_max :: "real option"
  fi_target :: real
  fi_constrained :: bool

text \<open>Comparison and arithmetic with a possibly-NaN operand.\<close>

definition nanPositive :: "real option \<Rightarrow> bool" where
  "nanPositive a = (case a of Some r \<Rightarrow> r > 0 | None \<Rightarrow> False)"

definition nanTimes :: "real option \<Rightarrow> real \<Rightarrow> real option" where
  "nanTimes a b = (case a of Some r \<Rightarrow> Some (r * b) | None \<Rightarrow> None)"

definition nanPlus :: "real option \<Rightarrow> real option \<Rightarrow> real option" where
  "nanPlus a b = (case a of Some r \<Rightarrow> (case b of Some s \<Rightarrow> Some (r + s) | None \<Rightarrow> None) | None \<Rightarrow> None)"

text \<open>The base size: the node's current size, replaced by a numeric \<open>flexBasis\<close>, or by
  \<open>parseFloat(flexBasis) || base\<close> for a string other than \<open>auto\<close> that is no percentage.\<close>

definition baseSize :: "style \<Rightarrow> real \<Rightarrow> real" where
  "baseSize cs current =
     (case cs ''flexBasis'' of
        None \<Rightarrow> current
      | Some (Num r) \<Rightarrow> r
      | Some (Str s) \<Rightarrow>
          if s = ''auto'' then current
          else if s \<noteq> [] \<and> last s = CHR ''%'' then current
          else nanOr (parseFloat_str s) current)"

text \<open>A JavaScript number that need not be finite, and its comparisons with a finite
  number (every comparison with NaN is false).\<close>

datatype jsnum = Finite real | PlusInfinity | MinusInfinity | NaN

definition numLess :: "jsnum \<Rightarrow> real \<Rightarrow> bool" where
  "numLess x r = (case x of Finite a \<Rightarrow> a < r | MinusInfinity \<Rightarrow> True | _ \<Rightarrow> False)"

definition numGreater :: "jsnum \<Rightarrow> real \<Rightarrow> bool" where
  "numGreater x r = (case x of Finite a \<Rightarrow> a > r | PlusInfinity \<Rightarrow> True | _ \<Rightarrow> False)"

text \<open>One item of one pass of the grow loop (the body of the inner \<open>forEach\<close>). The state
  is \<open>remainingFlexGrow\<close>, \<open>spaceConsumedThisPass\<close> and \<open>stillFlexing\<close>. When
  \<open>remainingFlexGrow\<close> is \<open>0\<close> the quotient of the positive grow factor by it is
  \<open>Infinity\<close>, and the new target is infinite with the sign of \<open>remainingSpace\<close>, or NaN
  when that is \<open>0\<close>.\<close>

definition growItem ::
  "real \<Rightarrow> flexItem \<Rightarrow> real \<times> real \<times> bool \<Rightarrow> failure + (flexItem \<times> real \<times> real \<times> bool)" where
  "growItem remainingSpace item s =
     (let remainingFlexGrow = fst s; consumed = fst (snd s); stillFlexing = snd (snd s)
      in if fi_constrained item then Inr (item, s)
         else if \<not> fi_flexGrow item > 0 then Inr (item, s)
         else
           (let newTarget =
                  (if remainingFlexGrow \<noteq> 0
                   then Finite (fi_target item
                                + (fi_flexGrow item / remainingFlexGrow) * remainingSpace)
                   else if remainingSpace > 0 then PlusInfinity
                   else if remainingSpace < 0 then MinusInfinity
                   else NaN);
                belowMin = (case fi_min item of Some mn \<Rightarrow> numLess newTarget mn | None \<Rightarrow> False);
                c1 = (if belowMin then Finite (the (fi_min item)) else newTarget);
                aboveMax = (case fi_max item of Some mx \<Rightarrow> numGreater c1 mx | None \<Rightarrow> False);
                constrained = (if aboveMax then Finite (the (fi_max item)) else c1);
                wasConstrained = (belowMin \<or> aboveMax)
            in case constrained of
                 Finite t \<Rightarrow>
                   Inr (item\<lparr>fi_target := t, fi_constrained := wasConstrained\<rparr>,
                        (if wasConstrained then remainingFlexGrow - fi_flexGrow item
                         else remainingFlexGrow),
                        consumed + (t - fi_target item),
                        (if wasConstrained then stillFlexing else True))
               | _ \<Rightarrow> Inl NonFinite))"

fun growPass ::
  "real \<Rightarrow> flexItem list \<Rightarrow> real \<times> real \<times> bool \<Rightarrow> failure + (flexItem list \<times> real \<times> real \<times> bool)" where
  "growPass remainingSpace [] s = Inr ([], s)"
| "growPass remainingSpace (item # items) s =
     (case growItem remainingSpace item s of
        Inl e \<Rightarrow> Inl e
      | Inr r \<Rightarrow>
         (case growPass remainingSpace items (snd r) of
            Inl e \<Rightarrow> Inl e
          | Inr rs \<Rightarrow> Inr (fst r # fst rs, snd rs)))"

text \<open>The \<open>while\<close> loop: a pass starts with no space consumed and \<open>stillFlexing\<close> false, and
  the loop ends when a pass consumes less than \<open>0.01\<close>.\<close>

function growLoop :: "flexItem list \<Rightarrow> real \<Rightarrow> real \<Rightarrow> bool \<Rightarrow> failure + flexItem list" where
  "growLoop items remainingSpace remainingFlexGrow stillFlexing =
     (if remainingSpace > 0.1 \<and> remainingFlexGrow > 0 \<and> stillFlexing
      then (case growPass remainingSpace items (remainingFlexGrow, 0, False) of
              Inl e \<Rightarrow> Inl e
            | Inr r \<Rightarrow>
               (if fst (snd (snd r)) < 0.01 then Inr (fst r)
                else growLoop (fst r) (remainingSpace - fst (snd (snd r))) (fst (snd r))
                       (snd (snd (snd r)))))
      else Inr items)"
  by pat_completeness auto
termination
  apply (relation "measure (\<lambda>(items, remainingSpace, g, f). nat \<lfloor>remainingSpace * 100\<rfloor>)")
   apply simp
  apply simp
  apply linarith
  done

declare growLoop.simps [simp del]

text \<open>The shrink branch for one item.\<close>

definition shrinkItem :: "real \<Rightarrow> real \<Rightarrow> flexItem \<Rightarrow> flexItem" where
  "shrinkItem availableSpace totalFlexShrinkFactors item =
     (if nanPositive (fi_flexShrink item)
      then (let shrinkRatio = (the (fi_flexShrink item) * fi_base item) / totalFlexShrinkFactors;
                reduction = \<bar>availableSpace\<bar> * shrinkRatio;
                t = max 0 (fi_base item - reduction)
            in item\<lparr>fi_target := (case fi_min item of
                                     Some mn \<Rightarrow> if t < mn then mn else t
                                   | None \<Rightarrow> t)\<rparr>)
      else item\<lparr>fi_target := fi_base item\<rparr>)"

text \<open>The distribution of both layouters after the classification: grow when space is
  left and some item grows, shrink when space is missing and the shrink total is positive,
  else the base sizes.\<close>

definition distribute ::
  "flexItem list \<Rightarrow> real \<Rightarrow> real \<Rightarrow> real option \<Rightarrow> failure + flexItem list" where
  "distribute flexItems availableSpace totalFlexGrow totalFlexShrinkFactors =
     (if availableSpace > 0 \<and> totalFlexGrow > 0
      then growLoop flexItems availableSpace totalFlexGrow True
      else if availableSpace < 0 \<and> nanPositive totalFlexShrinkFactors
      then Inr (map (shrinkItem availableSpace (the totalFlexShrinkFactors)) flexItems)
      else Inr flexItems)"

text \<open>The values \<open>startOffset\<close>, \<open>spaceBetween\<close> and \<open>spaceAround\<close> of the \<open>switch\<close> on
  \<open>justifyContent\<close>, for \<open>n\<close> children.\<close>

definition justifySpacing :: "jsval \<Rightarrow> real \<Rightarrow> nat \<Rightarrow> real \<times> real \<times> real" where
  "justifySpacing justifyContent remaining n =
     (if justifyContent = Str ''start'' then (0, 0, 0)
      else if justifyContent = Str ''center'' then (remaining / 2, 0, 0)
      else if justifyContent = Str ''end'' then (remaining, 0, 0)
      else if justifyContent = Str ''space-between''
      then (0, (if n > 1 then remaining / (real n - 1) else 0), 0)
      else if justifyContent = Str ''space-around''
      then (0, 0, (if n > 0 then remaining / real n else 0))
      else (0, 0, 0))"

text \<open>The accumulator of the classification loop.\<close>

record classified =
  cl_flexItems :: "flexItem list"
  cl_totalFixed :: real
  cl_totalFlexGrow :: real
  cl_totalFlexShrinkFactors :: "real option"
  cl_world :: world

text \<open>The accumulator before the first child: empty lists and zero totals.\<close>

definition noneClassified :: "world \<Rightarrow> classified" where
  "noneClassified w =
     \<lparr> cl_flexItems = [], cl_totalFixed = 0, cl_totalFlexGrow = 0,
       cl_totalFlexShrinkFactors = Some 0, cl_world = w \<rparr>"

text \<open>The constants of the positioning loop.\<close>

record placing =
  pl_container :: nat
  pl_box :: boxModel
  pl_contentCross :: real
  pl_alignment :: jsval
  pl_gap :: real
  pl_spaceBetween :: real
  pl_spaceAround :: real
  pl_justifyContent :: jsval

text \<open>Loops over nodes: a \<open>forEach\<close> that updates the store, the running maximum of
  \<open>Math.max\<close> from \<open>0\<close>, and the outer sizes read from the filled scratch field.\<close>

fun forWorld :: "(world \<Rightarrow> nat \<Rightarrow> world) \<Rightarrow> nat list \<Rightarrow> world \<Rightarrow> world" where
  "forWorld f [] w = w"
| "forWorld f (c # cs) w = forWorld f cs (f w c)"

fun maxOver :: "(nat \<Rightarrow> real) \<Rightarrow> nat list \<Rightarrow> real \<Rightarrow> real" where
  "maxOver f [] m = m"
| "maxOver f (c # cs) m = maxOver f cs (max m (f c))"

definition outerWidthIn :: "world \<Rightarrow> nat \<Rightarrow> real" where
  "outerWidthIn w child =
     iwidth (w child) + s_left (margin (boxOf (stylesOf w child)))
     + s_right (margin (boxOf (stylesOf w child)))"

definition outerHeightIn :: "world \<Rightarrow> nat \<Rightarrow> real" where
  "outerHeightIn w child =
     iheight (w child) + s_top (margin (boxOf (stylesOf w child)))
     + s_bottom (margin (boxOf (stylesOf w child)))"

definition itemOuterWidth :: "flexItem \<Rightarrow> real" where
  "itemOuterWidth item =
     fi_base item + s_left (margin (fi_boxModel item)) + s_right (margin (fi_boxModel item))"

definition itemOuterHeight :: "flexItem \<Rightarrow> real" where
  "itemOuterHeight item =
     fi_base item + s_top (margin (fi_boxModel item)) + s_bottom (margin (fi_boxModel item))"

definition setWidth :: "flexItem \<Rightarrow> world \<Rightarrow> world" where
  "setWidth item v = v(fi_instance item := (v (fi_instance item))\<lparr>iwidth := fi_target item\<rparr>)"

definition setHeight :: "flexItem \<Rightarrow> world \<Rightarrow> world" where
  "setHeight item v = v(fi_instance item := (v (fi_instance item))\<lparr>iheight := fi_target item\<rparr>)"

subsection \<open>Horizontal rows\<close>

definition classifyHorizontal :: "engine \<Rightarrow> nat \<Rightarrow> classified \<Rightarrow> classified" where
  "classifyHorizontal eng child acc =
     (let w = cl_world acc;
          childStyles = stylesOf w child;
          w1 = ensureStyles eng w child;
          childBoxModel = boxOf (stylesOf w1 child);
          flexGrow = nanOr (parseFloat (childStyles ''flexGrow'')) 0;
          actualFlexShrink = parseFloat (childStyles ''flexShrink'');
          baseWidth = baseSize childStyles (iwidth (w1 child))
      in if flexGrow > 0 \<or> nanPositive actualFlexShrink
         then acc\<lparr> cl_flexItems := cl_flexItems acc @
                       [\<lparr> fi_instance = child, fi_boxModel = childBoxModel, fi_flexGrow = flexGrow,
                          fi_flexShrink = actualFlexShrink, fi_base = baseWidth,
                          fi_min = numOf (childStyles ''minWidth''),
                          fi_max = numOf (childStyles ''maxWidth''),
                          fi_target = baseWidth, fi_constrained = False \<rparr>],
                   cl_totalFlexGrow := cl_totalFlexGrow acc + flexGrow,
                   cl_totalFlexShrinkFactors :=
                     nanPlus (cl_totalFlexShrinkFactors acc) (nanTimes actualFlexShrink baseWidth),
                   cl_world := w1 \<rparr>
         else acc\<lparr> cl_totalFixed := cl_totalFixed acc + (iwidth (w1 child)
                       + s_left (margin childBoxModel) + s_right (margin childBoxModel)),
                   cl_world := w1 \<rparr>)"

text \<open>The positioning loop. It runs after the classification loop, which has filled the
  scratch field of every child, so \<open>getBoxModel\<close> reads the style that
  \<open>child._computedStyles\<close> holds.\<close>

fun placeHorizontal :: "placing \<Rightarrow> nat list \<Rightarrow> real \<Rightarrow> world \<Rightarrow> world" where
  "placeHorizontal pl [] currentX w = w"
| "placeHorizontal pl (child # rest) currentX w =
     (let childStyles = stylesOf w child;
          cb = boxOf childStyles;
          B = pl_box pl;
          c = pl_container pl;
          x1 = currentX + s_left (margin cb);
          w1 = w(child := (w child)\<lparr>ix := ix (w c) + x1\<rparr>);
          alignSelf = orElse (childStyles ''alignSelf'') (pl_alignment pl);
          y = (if alignSelf = Str ''center''
               then iy (w1 c) + s_top (padding B) + s_top (border B)
                    + (pl_contentCross pl
                       - (iheight (w1 child) + s_top (margin cb) + s_bottom (margin cb))) / 2
                    + s_top (margin cb)
               else if alignSelf = Str ''end''
               then iy (w1 c) + iheight (w1 c) - s_bottom (padding B) - s_bottom (border B)
                    - iheight (w1 child) - s_bottom (margin cb)
               else iy (w1 c) + s_top (padding B) + s_top (border B) + s_top (margin cb));
          w2 = w1(child := (w1 child)\<lparr>iy := y\<rparr>);
          x2 = x1 + iwidth (w2 child) + s_right (margin cb);
          x3 = (if rest \<noteq> []
                then x2 + (pl_gap pl + pl_spaceBetween pl)
                     + (if pl_justifyContent pl = Str ''space-around'' then pl_spaceAround pl else 0)
                else x2)
      in placeHorizontal pl rest x3 w2)"

definition layoutHorizontal ::
  "engine \<Rightarrow> world \<Rightarrow> nat \<Rightarrow> layoutProps \<Rightarrow> nat list \<Rightarrow> failure + world" where
  "layoutHorizontal eng w0 container lp childList =
     (let w = ensureStyles eng w0 container;
          B = boxOf (stylesOf w container);
          gap = lp_gap lp;
          alignment = lp_alignItems lp;
          contentWidth = iwidth (w container) - s_left (padding B) - s_right (padding B)
                         - s_left (border B) - s_right (border B);
          contentHeight = iheight (w container) - s_top (padding B) - s_bottom (padding B)
                          - s_top (border B) - s_bottom (border B);
          cl = fold (classifyHorizontal eng) childList (noneClassified w);
          n = length childList;
          totalGaps = (if n > 1 then (real n - 1) * gap else 0);
          totalAvailableWidth = contentWidth - totalGaps;
          initialFlexWidth = sum_list (map itemOuterWidth (cl_flexItems cl));
          availableSpace0 = contentWidth - cl_totalFixed cl - initialFlexWidth - totalGaps;
          availableSpace =
            (if initialFlexWidth + cl_totalFixed cl > totalAvailableWidth
             then totalAvailableWidth - cl_totalFixed cl - initialFlexWidth
             else min availableSpace0 (totalAvailableWidth - cl_totalFixed cl - initialFlexWidth))
      in case distribute (cl_flexItems cl) availableSpace (cl_totalFlexGrow cl)
                (cl_totalFlexShrinkFactors cl) of
           Inl e \<Rightarrow> Inl e
         | Inr items \<Rightarrow>
            (let w1 = fold setWidth items (cl_world cl);
                 justifyContent = lp_justifyContent lp;
                 actualTotalWidth =
                   sum_list (map (outerWidthIn w1) childList) + totalGaps;
                 justifyRemainingSpace = max 0 (contentWidth - actualTotalWidth);
                 sp = justifySpacing justifyContent justifyRemainingSpace n;
                 startOffset = fst sp;
                 spaceBetween = fst (snd sp);
                 spaceAround = snd (snd sp);
                 currentX0 = s_left (padding B) + s_left (border B) + startOffset;
                 currentX = (if justifyContent = Str ''space-around'' \<and> n > 0
                             then currentX0 + spaceAround / 2 else currentX0)
             in Inr (placeHorizontal
                       \<lparr> pl_container = container, pl_box = B, pl_contentCross = contentHeight,
                         pl_alignment = alignment, pl_gap = gap, pl_spaceBetween = spaceBetween,
                         pl_spaceAround = spaceAround, pl_justifyContent = justifyContent \<rparr>
                       childList currentX w1)))"

subsection \<open>Vertical stacks\<close>

definition classifyVertical :: "engine \<Rightarrow> nat \<Rightarrow> classified \<Rightarrow> classified" where
  "classifyVertical eng child acc =
     (let w = cl_world acc;
          childStyles = stylesOf w child;
          w1 = ensureStyles eng w child;
          childBoxModel = boxOf (stylesOf w1 child);
          flexGrow = nanOr (parseFloat (childStyles ''flexGrow'')) 0;
          actualFlexShrink = parseFloat (childStyles ''flexShrink'');
          baseHeight = baseSize childStyles (iheight (w1 child))
      in if flexGrow > 0 \<or> nanPositive actualFlexShrink
         then acc\<lparr> cl_flexItems := cl_flexItems acc @
                       [\<lparr> fi_instance = child, fi_boxModel = childBoxModel, fi_flexGrow = flexGrow,
                          fi_flexShrink = actualFlexShrink, fi_base = baseHeight,
                          fi_min = numOf (childStyles ''minHeight''),
                          fi_max = numOf (childStyles ''maxHeight''),
                          fi_target = baseHeight, fi_constrained = False \<rparr>],
                   cl_totalFlexGrow := cl_totalFlexGrow acc + flexGrow,
                   cl_totalFlexShrinkFactors :=
                     nanPlus (cl_totalFlexShrinkFactors acc) (nanTimes actualFlexShrink baseHeight),
                   cl_world := w1 \<rparr>
         else acc\<lparr> cl_totalFixed := cl_totalFixed acc + (iheight (w1 child)
                       + s_top (margin childBoxModel) + s_bottom (margin childBoxModel)),
                   cl_world := w1 \<rparr>)"

fun placeVertical :: "placing \<Rightarrow> nat list \<Rightarrow> real \<Rightarrow> world \<Rightarrow> world" where
  "placeVertical pl [] currentY w = w"
| "placeVertical pl (child # rest) currentY w =
     (let childStyles = stylesOf w child;
          cb = boxOf childStyles;
          B = pl_box pl;
          c = pl_container pl;
          y1 = currentY + s_top (margin cb);
          w1 = w(child := (w child)\<lparr>iy := iy (w c) + y1\<rparr>);
          alignSelf = orElse (childStyles ''alignSelf'') (pl_alignment pl);
          x = (if alignSelf = Str ''center''
               then ix (w1 c) + s_left (padding B) + s_left (border B)
                    + (pl_contentCross pl
                       - (iwidth (w1 child) + s_left (margin cb) + s_right (margin cb))) / 2
                    + s_left (margin cb)
               else if alignSelf = Str ''end''
               then ix (w1 c) + iwidth (w1 c) - s_right (padding B) - s_right (border B)
                    - iwidth (w1 child) - s_right (margin cb)
               else ix (w1 c) + s_left (padding B) + s_left (border B) + s_left (margin cb));
          w2 = w1(child := (w1 child)\<lparr>ix := x\<rparr>);
          y2 = y1 + iheight (w2 child) + s_bottom (margin cb);
          y3 = (if rest \<noteq> []
                then y2 + (pl_gap pl + pl_spaceBetween pl)
                     + (if pl_justifyContent pl = Str ''space-around'' then pl_spaceAround pl else 0)
                else y2)
      in placeVertical pl rest y3 w2)"

definition layoutVertical ::
  "engine \<Rightarrow> world \<Rightarrow> nat \<Rightarrow> layoutProps \<Rightarrow> nat list \<Rightarrow> failure + world" where
  "layoutVertical eng w0 container lp childList =
     (let w = ensureStyles eng w0 container;
          B = boxOf (stylesOf w container);
          gap = lp_gap lp;
          alignment = lp_alignItems lp;
          contentHeight = iheight (w container) - s_top (padding B) - s_bottom (padding B)
                          - s_top (border B) - s_bottom (border B);
          contentWidth = iwidth (w container) - s_left (padding B) - s_right (padding B)
                         - s_left (border B) - s_right (border B);
          cl = fold (classifyVertical eng) childList (noneClassified w);
          n = length childList;
          totalGaps = (if n > 1 then (real n - 1) * gap else 0);
          availableSpace0 = contentHeight - cl_totalFixed cl - totalGaps;
          totalAvailableHeight = contentHeight - totalGaps;
          initialFlexHeight = sum_list (map itemOuterHeight (cl_flexItems cl));
          availableSpace =
            (if initialFlexHeight + cl_totalFixed cl > totalAvailableHeight
             then totalAvailableHeight - cl_totalFixed cl - initialFlexHeight
             else min availableSpace0 (totalAvailableHeight - cl_totalFixed cl - initialFlexHeight))
      in case distribute (cl_flexItems cl) availableSpace (cl_totalFlexGrow cl)
                (cl_totalFlexShrinkFactors cl) of
           Inl e \<Rightarrow> Inl e
         | Inr items \<Rightarrow>
            (let w1 = fold setHeight items (cl_world cl);
                 justifyContent = lp_justifyContent lp;
                 actualTotalHeight =
                   sum_list (map (outerHeightIn w1) childList) + totalGaps;
                 justifyRemainingSpace = max 0 (contentHeight - actualTotalHeight);
                 sp = justifySpacing justifyContent justifyRemainingSpace n;
                 startOffset = fst sp;
                 spaceBetween = fst (snd sp);
                 spaceAround = snd (snd sp);
                 currentY0 = s_top (padding B) + s_top (border B) + startOffset;
                 currentY = (if justifyContent = Str ''space-around'' \<and> n > 0
                             then currentY0 + spaceAround / 2 else currentY0)
             in Inr (placeVertical
                       \<lparr> pl_container = container, pl_box = B, pl_contentCross = contentWidth,
                         pl_alignment = alignment, pl_gap = gap, pl_spaceBetween = spaceBetween,
                         pl_spaceAround = spaceAround, pl_justifyContent = justifyContent \<rparr>
                       childList currentY w1)))"

subsection \<open>Grid\<close>

text \<open>\<open>Math.floor\<close>, \<open>Math.ceil\<close> and the remainder \<open>%\<close> of JavaScript (the sign of the
  dividend) on real numbers; the divisor \<open>columns\<close> is never \<open>0\<close>.\<close>

definition jsFloor :: "real \<Rightarrow> real" where
  "jsFloor a = real_of_int \<lfloor>a\<rfloor>"

definition jsCeil :: "real \<Rightarrow> real" where
  "jsCeil a = real_of_int \<lceil>a\<rceil>"

definition jsRem :: "real \<Rightarrow> real \<Rightarrow> real" where
  "jsRem a b = a - b * (if a / b \<ge> 0 then jsFloor (a / b) else jsCeil (a / b))"

definition maxCellWidth :: "world \<Rightarrow> nat list \<Rightarrow> real" where
  "maxCellWidth w cs = maxOver (outerWidthIn w) cs 0"

definition maxCellHeight :: "world \<Rightarrow> nat list \<Rightarrow> real" where
  "maxCellHeight w cs = maxOver (outerHeightIn w) cs 0"

record gridding =
  gr_container :: nat
  gr_box :: boxModel
  gr_columns :: real
  gr_gap :: real
  gr_alignItems :: jsval
  gr_startOffsetX :: real
  gr_extraColumnGap :: real
  gr_cellWidth :: real
  gr_cellHeight :: real

fun placeGrid :: "gridding \<Rightarrow> nat list \<Rightarrow> nat \<Rightarrow> world \<Rightarrow> world" where
  "placeGrid g [] index w = w"
| "placeGrid g (child # rest) index w =
     (let childStyles = stylesOf w child;
          cb = boxOf childStyles;
          B = gr_box g;
          row = jsFloor (real index / gr_columns g);
          col = jsRem (real index) (gr_columns g);
          baseX = s_left (padding B) + s_left (border B) + gr_startOffsetX g;
          baseY = s_top (padding B) + s_top (border B);
          alignSelf = orElse (childStyles ''alignSelf'') (gr_alignItems g);
          justifySelf = orElse (childStyles ''justifySelf'') (Str ''start'');
          cellLeft = baseX + col * (gr_cellWidth g + gr_gap g + gr_extraColumnGap g);
          cellTop = baseY + row * (gr_cellHeight g + gr_gap g);
          itemX = (if justifySelf = Str ''center''
                   then cellLeft + (gr_cellWidth g - (iwidth (w child) + s_left (margin cb)
                                                       + s_right (margin cb))) / 2 + s_left (margin cb)
                   else if justifySelf = Str ''end''
                   then cellLeft + gr_cellWidth g - iwidth (w child) - s_right (margin cb)
                   else cellLeft + s_left (margin cb));
          itemY = (if alignSelf = Str ''center''
                   then cellTop + (gr_cellHeight g - (iheight (w child) + s_top (margin cb)
                                                       + s_bottom (margin cb))) / 2 + s_top (margin cb)
                   else if alignSelf = Str ''end''
                   then cellTop + gr_cellHeight g - iheight (w child) - s_bottom (margin cb)
                   else cellTop + s_top (margin cb));
          w1 = w(child := (w child)\<lparr>ix := ix (w (gr_container g)) + itemX\<rparr>);
          w2 = w1(child := (w1 child)\<lparr>iy := iy (w1 (gr_container g)) + itemY\<rparr>)
      in placeGrid g rest (Suc index) w2)"

definition layoutGrid :: "engine \<Rightarrow> world \<Rightarrow> nat \<Rightarrow> layoutProps \<Rightarrow> nat list \<Rightarrow> world" where
  "layoutGrid eng w0 container lp childList =
     (let w = forWorld (ensureStyles eng) childList (ensureStyles eng w0 container);
          B = boxOf (stylesOf w container);
          columns = lp_columns lp;
          gap = lp_gap lp;
          justifyContent = lp_justifyContent lp;
          contentWidth = iwidth (w container) - s_left (padding B) - s_right (padding B)
                         - s_left (border B) - s_right (border B);
          cw = maxCellWidth w childList;
          ch = maxCellHeight w childList;
          totalWidthNeeded = cw * columns + (columns - 1) * gap;
          extraWidth = max 0 (contentWidth - totalWidthNeeded);
          startOffsetX = (if justifyContent = Str ''center'' then extraWidth / 2
                          else if justifyContent = Str ''end'' then extraWidth
                          else if justifyContent = Str ''space-around'' then extraWidth / columns / 2
                          else 0);
          extraColumnGap = (if justifyContent = Str ''space-between''
                            then (if columns > 1 then extraWidth / (columns - 1) else 0)
                            else if justifyContent = Str ''space-around'' then extraWidth / columns
                            else 0)
      in placeGrid \<lparr> gr_container = container, gr_box = B, gr_columns = columns, gr_gap = gap,
                      gr_alignItems = lp_alignItems lp, gr_startOffsetX = startOffsetX,
                      gr_extraColumnGap = extraColumnGap, gr_cellWidth = cw, gr_cellHeight = ch \<rparr>
           childList 0 w)"

section \<open>The tree driver\<close>

text \<open>\<open>applyNormalFlowLayout\<close>: the children are always passed by the driver.\<close>

definition applyNormalFlowLayout ::
  "engine \<Rightarrow> world \<Rightarrow> nat \<Rightarrow> layoutProps \<Rightarrow> nat list \<Rightarrow> failure + world" where
  "applyNormalFlowLayout eng w i lp childList =
     (if lp_display lp = Str ''vertical'' then layoutVertical eng w i lp childList
      else if lp_display lp = Str ''horizontal'' then layoutHorizontal eng w i lp childList
      else if lp_display lp = Str ''grid'' then Inr (layoutGrid eng w i lp childList)
      else Inr w)"

text \<open>\<open>getLayoutChildren\<close>: the filter fills the scratch field of the children it looks
  at; the (stable) sort is by \<open>_layoutOrder\<close>.\<close>

fun filterLayoutChildren :: "engine \<Rightarrow> nat list \<Rightarrow> world \<Rightarrow> nat list \<times> world" where
  "filterLayoutChildren eng [] w = ([], w)"
| "filterLayoutChildren eng (c # cs) w =
     (if doLayoutFalse (w c) then filterLayoutChildren eng cs w
      else if \<not> isVisible (w c) then filterLayoutChildren eng cs w
      else (let w1 = ensureStyles eng w c;
                childPosition = orElse (stylesOf w1 c ''position'') (Str ''relative'');
                r = filterLayoutChildren eng cs w1
            in if childPosition = Str ''absolute'' \<or> childPosition = Str ''anchor'' then r
               else (c # fst r, snd r)))"

definition orderKey :: "world \<Rightarrow> nat \<Rightarrow> real" where
  "orderKey w c = layoutOrder (w c)"

definition getLayoutChildren :: "engine \<Rightarrow> world \<Rightarrow> nat \<Rightarrow> nat list \<times> world" where
  "getLayoutChildren eng w i =
     (let r = filterLayoutChildren eng (children (w i)) w
      in (sort_key (orderKey (snd r)) (fst r), snd r))"

definition applyFitContentSizing :: "engine \<Rightarrow> world \<Rightarrow> nat \<Rightarrow> layoutProps \<Rightarrow> world" where
  "applyFitContentSizing eng w0 i lp =
     (let r = getLayoutChildren eng w0 i;
          cs = fst r;
          w = ensureStyles eng (snd r) i;
          B = boxOf (stylesOf w i);
          n = length cs
      in if lp_display lp = Str ''vertical'' then
           (let totalHeightVertical =
                  s_top (padding B) + s_bottom (padding B)
                  + sum_list (map (getOuterHeight eng w) cs)
                  + (if n > 1 then (real n - 1) * lp_gap lp else 0);
                maxWidth = maxOver (getOuterWidth eng w) cs 0
            in w(i := (w i)\<lparr> iheight := totalHeightVertical + s_top (border B) + s_bottom (border B),
                              iwidth := maxWidth + s_left (padding B) + s_right (padding B)
                                        + s_left (border B) + s_right (border B) \<rparr>))
         else if lp_display lp = Str ''horizontal'' then
           (let totalWidthHorizontal =
                  s_left (padding B) + s_right (padding B)
                  + sum_list (map (getOuterWidth eng w) cs)
                  + (if n > 1 then (real n - 1) * lp_gap lp else 0);
                maxHeight = maxOver (getOuterHeight eng w) cs 0
            in w(i := (w i)\<lparr> iwidth := totalWidthHorizontal + s_left (border B) + s_right (border B),
                              iheight := maxHeight + s_top (padding B) + s_bottom (padding B)
                                         + s_top (border B) + s_bottom (border B) \<rparr>))
         else if lp_display lp = Str ''grid'' then
           (let columns = lp_columns lp;
                rows = jsCeil (real n / columns);
                cw = maxCellWidth w cs;
                ch = maxCellHeight w cs
            in w(i := (w i)\<lparr> iwidth := columns * cw + (columns - 1) * lp_gap lp
                                        + s_left (padding B) + s_right (padding B)
                                        + s_left (border B) + s_right (border B),
                              iheight := rows * ch + (rows - 1) * lp_gap lp
                                         + s_top (padding B) + s_bottom (padding B)
                                         + s_top (border B) + s_bottom (border B) \<rparr>))
         else w)"

text \<open>\<open>hasPercentageSizing\<close> and \<open>hasFlexChildren\<close>. In the latter, \<open>styles.flexGrow &&
  styles.flexGrow > 0\<close> holds of a positive number and of a string that converts to
  one, \<open>typeof styles.flexShrink !== "undefined"\<close> of any declared value, and
  \<open>styles.flexBasis && styles.flexBasis !== "auto"\<close> of a truthy value other than the
  string \<open>auto\<close>.\<close>

definition hasPercentageSizing :: "style \<Rightarrow> bool" where
  "hasPercentageSizing st =
     (if st ''percentWidth'' \<noteq> None \<or> st ''percentHeight'' \<noteq> None then True
      else if isPercent (st ''width'') then True
      else if isPercent (st ''height'') then True
      else if isPercent (st ''flexBasis'') then True
      else False)"

definition flexChild :: "style \<Rightarrow> bool" where
  "flexChild st =
     (jsPositive (st ''flexGrow'')
      \<or> st ''flexShrink'' \<noteq> None
      \<or> (truthy (st ''flexBasis'') \<and> st ''flexBasis'' \<noteq> Some (Str ''auto'')))"

definition flexChildIn :: "world \<Rightarrow> nat \<Rightarrow> bool" where
  "flexChildIn w child = flexChild (stylesOf w child)"

definition hasFlexChildren :: "world \<Rightarrow> nat list \<Rightarrow> bool" where
  "hasFlexChildren w childList = list_ex (flexChildIn w) childList"

text \<open>A \<open>for\<close> loop over nodes whose body can stop the pass.\<close>

fun forEachNode :: "(world \<Rightarrow> nat \<Rightarrow> failure + world) \<Rightarrow> nat list \<Rightarrow> world \<Rightarrow> failure + world" where
  "forEachNode f [] w = Inr w"
| "forEachNode f (c # cs) w = (case f w c of Inl e \<Rightarrow> Inl e | Inr w' \<Rightarrow> forEachNode f cs w')"

text \<open>The body of the loop of step 7: process the out-of-flow child, then position it.\<close>

definition positioned ::
  "engine \<Rightarrow> (world \<Rightarrow> nat \<Rightarrow> failure + world) \<Rightarrow> world \<Rightarrow> nat \<Rightarrow> failure + world" where
  "positioned eng process v child =
     (case process v child of
        Inl e \<Rightarrow> Inl e
      | Inr v' \<Rightarrow> Inr (applyOutOfFlowLayout eng v' child))"

text \<open>Step 3 of the driver: the children that take part, with fresh computed styles,
  split into in-flow, out-of-flow and percentage-sized ones.\<close>

fun partitionChildren ::
  "engine \<Rightarrow> nat list \<Rightarrow> world \<Rightarrow> (nat list \<times> nat list \<times> nat list) \<times> world" where
  "partitionChildren eng [] w = (([], [], []), w)"
| "partitionChildren eng (child # rest) w =
     (if \<not> isVisible (w child) \<or> doLayoutFalse (w child) then partitionChildren eng rest w
      else
        (let childStyles = getInstanceStyles (registeredClasses eng) (w child);
             w1 = w(child := (w child)\<lparr>computedStyles := Some childStyles\<rparr>);
             r = partitionChildren eng rest w1;
             inFlow = fst (fst r);
             outOfFlow = fst (snd (fst r));
             percentSized = snd (snd (fst r));
             childPosition = orElse (childStyles ''position'') (Str ''relative'');
             out = (childPosition = Str ''absolute'' \<or> childPosition = Str ''anchor'')
         in ((if out then inFlow else child # inFlow,
              if out then child # outOfFlow else outOfFlow,
              if hasPercentageSizing childStyles then child # percentSized else percentSized),
             snd r)))"

text \<open>The guard of steps 5, 6.2 and 6.3.\<close>

definition flowEnabled :: "layoutProps \<Rightarrow> bool" where
  "flowEnabled lp =
     (truthy (Some (lp_display lp)) \<and> lp_position lp \<noteq> Str ''absolute''
      \<and> lp_position lp \<noteq> Str ''anchor'')"

text \<open>Step 2 of \<open>processInstance\<close>: the layout properties of the node, with the
  position set to \<open>relative\<close> when the node has no parent.\<close>

definition passProps :: "engine \<Rightarrow> world \<Rightarrow> nat \<Rightarrow> layoutProps" where
  "passProps eng w i =
     (let layoutProps = getLayoutProperties eng w i
      in if parent (w i) = None then layoutProps\<lparr>lp_position := Str ''relative''\<rparr>
         else layoutProps)"

text \<open>Step 6 of \<open>processInstance\<close>.\<close>

definition fitContentPhase ::
  "engine \<Rightarrow> world \<Rightarrow> nat \<Rightarrow> layoutProps \<Rightarrow> nat list \<Rightarrow> nat list \<Rightarrow> failure + world" where
  "fitContentPhase eng w i lp inFlow percentSized =
     (if lp_fitContent lp then
        (let w1 = applyFitContentSizing eng w i lp
         in if percentSized \<noteq> [] then
              (let w2 = forWorld (applyPercentageSizing eng) percentSized w1
               in if flowEnabled lp then applyNormalFlowLayout eng w2 i lp inFlow else Inr w2)
            else if flowEnabled lp \<and> hasFlexChildren w1 inFlow
            then applyNormalFlowLayout eng w1 i lp inFlow
            else Inr w1)
      else Inr w)"

text \<open>\<open>processInstance\<close>. The recursion follows the child lists of the store, which need
  not be well founded, so it carries fuel; a pass that runs out of it has no result.\<close>

fun processInstance :: "nat \<Rightarrow> engine \<Rightarrow> world \<Rightarrow> nat \<Rightarrow> failure + world" where
  "processInstance 0 eng w i = Inl OutOfFuel"
| "processInstance (Suc k) eng w i =
     (let styles = getInstanceStyles (registeredClasses eng) (w i);
          w1 = applyStylesToInstance eng w i styles;
          lp = passProps eng w1 i;
          p = partitionChildren eng (children (w1 i)) w1;
          inFlow = fst (fst p);
          outOfFlow = fst (snd (fst p));
          percentSized = snd (snd (fst p))
      in case forEachNode (processInstance k eng) inFlow (snd p) of
           Inl e \<Rightarrow> Inl e
         | Inr w3 \<Rightarrow>
            (case (if flowEnabled lp then applyNormalFlowLayout eng w3 i lp inFlow else Inr w3) of
               Inl e \<Rightarrow> Inl e
             | Inr w4 \<Rightarrow>
                (case fitContentPhase eng w4 i lp inFlow percentSized of
                   Inl e \<Rightarrow> Inl e
                 | Inr w5 \<Rightarrow>
                    forEachNode (positioned eng (processInstance k eng)) outOfFlow w5)))"

section \<open>The debug driver\<close>

text \<open>
  \<open>processInstanceStepByStep\<close> is a generator; every \<open>yield\<close> reports a snapshot and
  changes nothing. The function below is the effect on the store of driving the generator
  of a node to its end with nothing else touching the store in between (\<open>yield*\<close>
  splices the generator of a child in place). The highlighter that \<open>nextStep\<close> moves over
  the reported node is a node of the host outside the tree that is laid out, and is left
  out. Step 6 of the generator has no counterpart of step 6.3.
\<close>

definition fitContentPhaseStepByStep ::
  "engine \<Rightarrow> world \<Rightarrow> nat \<Rightarrow> layoutProps \<Rightarrow> nat list \<Rightarrow> nat list \<Rightarrow> failure + world" where
  "fitContentPhaseStepByStep eng w i lp inFlow percentSized =
     (if lp_fitContent lp then
        (let w1 = applyFitContentSizing eng w i lp
         in if percentSized \<noteq> [] then
              (let w2 = forWorld (applyPercentageSizing eng) percentSized w1
               in if flowEnabled lp then applyNormalFlowLayout eng w2 i lp inFlow else Inr w2)
            else Inr w1)
      else Inr w)"

fun processInstanceStepByStep :: "nat \<Rightarrow> engine \<Rightarrow> world \<Rightarrow> nat \<Rightarrow> failure + world" where
  "processInstanceStepByStep 0 eng w i = Inl OutOfFuel"
| "processInstanceStepByStep (Suc k) eng w i =
     (let styles = getInstanceStyles (registeredClasses eng) (w i);
          w1 = applyStylesToInstance eng w i styles;
          lp = getLayoutProperties eng w1 i;
          p = partitionChildren eng (children (w1 i)) w1;
          inFlow = fst (fst p);
          outOfFlow = fst (snd (fst p));
          percentSized = snd (snd (fst p))
      in case forEachNode (processInstanceStepByStep k eng) inFlow (snd p) of
           Inl e \<Rightarrow> Inl e
         | Inr w3 \<Rightarrow>
            (case (if flowEnabled lp then applyNormalFlowLayout eng w3 i lp inFlow else Inr w3) of
               Inl e \<Rightarrow> Inl e
             | Inr w4 \<Rightarrow>
                (case fitContentPhaseStepByStep eng w4 i lp inFlow percentSized of
                   Inl e \<Rightarrow> Inl e
                 | Inr w5 \<Rightarrow>
                    forEachNode (positioned eng (processInstanceStepByStep k eng)) outOfFlow w5)))"

text \<open>
  The state of \<open>UILayoutDebug\<close> that \<open>processInstance\<close> reads is the flag \<open>debugMode\<close>.
  \<open>enableDebugMode\<close> sets it; the call of \<open>nextStep\<close> it ends with takes the first step
  of the generator, which always reaches a \<open>yield\<close>, so the flag is still set when
  \<open>enableDebugMode\<close> returns. \<open>disableDebugMode\<close> clears the flag, and so does \<open>nextStep\<close>
  once the generator is exhausted. The generator object, the step records and the
  console output are not part of this model.
\<close>

record debugger =
  debugMode :: bool

definition enableDebugMode :: "debugger \<Rightarrow> debugger" where
  "enableDebugMode d = d\<lparr> debugMode := True \<rparr>"

definition disableDebugMode :: "debugger \<Rightarrow> debugger" where
  "disableDebugMode d = d\<lparr> debugMode := False \<rparr>"

text \<open>The override \<open>UILayoutDebug.processInstance\<close>.\<close>

definition debugProcessInstance ::
  "nat \<Rightarrow> debugger \<Rightarrow> engine \<Rightarrow> world \<Rightarrow> nat \<Rightarrow> failure + world" where
  "debugProcessInstance fuel d eng w i =
     (if \<not> debugMode d then processInstance fuel eng w i else Inr w)"

section \<open>Example nodes and scenes\<close>

text \<open>A visible node with an inline style and no classes or tags, whose scratch field is
  empty, and an engine with no registered classes.\<close>

definition plainNode ::
  "real \<Rightarrow> real \<Rightarrow> real \<Rightarrow> real \<Rightarrow> nat option \<Rightarrow> nat list \<Rightarrow> (string \<times> jsval) list \<Rightarrow> inst" where
  "plainNode x y w h p cs st =
     \<lparr> ix = x, iy = y, iwidth = w, iheight = h, isVisible = True, doLayoutFalse = False,
       tags = [], parent = p, children = cs, classes = [],
       inlineStyle = Some \<lparr> computedStyle = st, importantProperties = [] \<rparr>,
       layoutOrder = 0, computedStyles = None \<rparr>"

definition noClasses :: engine where
  "noClasses = \<lparr> registeredClasses = (\<lambda>c. None), runtimeObjects = [] \<rparr>"

text \<open>A cascade: class \<open>base\<close> sets an important width, a gap, an important top and a
  left; class \<open>wide\<close> sets width and gap again, a height and an important top; the inline
  style sets width, height, top and left.\<close>

definition cascadeRegistry :: registry where
  "cascadeRegistry =
     Map.empty
       (''base'' \<mapsto> \<lparr> computedStyle = [(''width'', Num 100), (''gap'', Num 4), (''top'', Num 1),
                                        (''left'', Num 7)],
                       importantProperties = [''width'', ''top''] \<rparr>,
        ''wide'' \<mapsto> \<lparr> computedStyle = [(''width'', Num 300), (''gap'', Num 8), (''height'', Num 5),
                                        (''top'', Num 2)],
                       importantProperties = [''top''] \<rparr>)"

definition cascadeNode :: inst where
  "cascadeNode =
     (plainNode 0 0 0 0 None [] [(''width'', Num 50), (''height'', Num 20), (''top'', Num 3),
                                 (''left'', Num 9)])
       \<lparr> classes := ''base wide'' \<rparr>"

text \<open>A style whose minimum exceeds its maximum on both axes, with a width and a
  height of half the parent's content box; a node of size 70 by 70; a growing flex item
  with the same bounds; and a node that carries the style inside a parent of size 400
  by 400.\<close>

definition conflictStyle :: style where
  "conflictStyle =
     Map.empty(''minWidth'' \<mapsto> Num 100, ''maxWidth'' \<mapsto> Num 50,
               ''minHeight'' \<mapsto> Num 100, ''maxHeight'' \<mapsto> Num 50,
               ''width'' \<mapsto> Str ''50%'', ''height'' \<mapsto> Str ''50%'')"

definition conflictNode :: inst where
  "conflictNode = plainNode 0 0 70 70 None [] []"

definition conflictItem :: flexItem where
  "conflictItem =
     \<lparr> fi_instance = 1, fi_boxModel = boxOf Map.empty, fi_flexGrow = 1, fi_flexShrink = None,
       fi_base = 70, fi_min = Some 100, fi_max = Some 50, fi_target = 70,
       fi_constrained = False \<rparr>"

definition conflictWorld :: world where
  "conflictWorld =
     (\<lambda>n. plainNode 0 0 0 0 None [] [])
       (0 := plainNode 0 0 400 400 None [1] [],
        1 := (plainNode 0 0 70 70 (Some 0) [] [])\<lparr> computedStyles := Some conflictStyle \<rparr>)"

text \<open>Scenario "absolute corner": a parent at the origin with \<open>width: 500\<close>,
  \<open>height: 400\<close>, \<open>padding: 15\<close>, \<open>border: 2\<close> and one child with \<open>position: absolute\<close>,
  \<open>right: 10\<close>, \<open>bottom: 10\<close>, \<open>width: 50\<close>, \<open>height: 50\<close>. The sizes the nodes have
  before the pass and the place of the child are parameters.\<close>

definition cornerWorld :: "real \<Rightarrow> real \<Rightarrow> real \<Rightarrow> real \<Rightarrow> real \<Rightarrow> real \<Rightarrow> world" where
  "cornerWorld pw ph cx cy cw ch =
     (\<lambda>n. plainNode 0 0 0 0 None [] [])
       (0 := plainNode 0 0 pw ph None [1]
               [(''width'', Num 500), (''height'', Num 400), (''padding'', Num 15),
                (''border'', Num 2)],
        1 := plainNode cx cy cw ch (Some 0) []
               [(''position'', Str ''absolute''), (''right'', Num 10), (''bottom'', Num 10),
                (''width'', Num 50), (''height'', Num 50)])"

text \<open>A tooltip anchored to the first node tagged \<open>tip\<close>, which is the tooltip itself.\<close>

definition selfAnchorWorld :: world where
  "selfAnchorWorld =
     (\<lambda>n. plainNode 0 0 0 0 None [] [])
       (1 := (plainNode 10 10 100 40 None [] [])\<lparr> tags := [''tip''] \<rparr>)"

definition selfAnchorProps :: layoutProps where
  "selfAnchorProps =
     propsOf (Map.empty(''position'' \<mapsto> Str ''anchor'', ''anchorTarget'' \<mapsto> Str ''tip'',
                        ''anchorPoint'' \<mapsto> Str ''top-left'', ''selfAnchor'' \<mapsto> Str ''center''))"

definition tipEngine :: engine where
  "tipEngine = \<lparr> registeredClasses = (\<lambda>c. None), runtimeObjects = [1, 2, 3] \<rparr>"

text \<open>Scenario "anchor tooltip": the target tagged \<open>mainPanel\<close> at (50, 50) of size 200 by
  150, and a tooltip of size 120 by 40 anchored with its bottom to the top of the target,
  5 above it.\<close>

definition tooltipWorld :: world where
  "tooltipWorld =
     (\<lambda>n. plainNode 0 0 0 0 None [] [])
       (3 := plainNode 0 0 120 40 None [] [],
        2 := (plainNode 50 50 200 150 None [] [])\<lparr> tags := [''mainPanel''] \<rparr>)"

definition tooltipProps :: layoutProps where
  "tooltipProps =
     propsOf (Map.empty(''position'' \<mapsto> Str ''anchor'', ''anchorTarget'' \<mapsto> Str ''mainPanel'',
                        ''anchorPoint'' \<mapsto> Str ''top'', ''selfAnchor'' \<mapsto> Str ''bottom'',
                        ''anchorOffsetY'' \<mapsto> Num (- 5)))"

text \<open>Scenario "vertical stack, fit-content": a root at (100, 100) with
  \<open>display: vertical\<close>, \<open>padding: 20\<close>, \<open>gap: 10\<close>, \<open>fit-content: true\<close>, \<open>border: 2\<close> and
  three children with \<open>width: 200\<close>, \<open>height: 80\<close>, \<open>margin: 5\<close>. The size of the root and
  the place and size of the children before the pass are parameters.\<close>

definition cardStyle :: "(string \<times> jsval) list" where
  "cardStyle = [(''width'', Num 200), (''height'', Num 80), (''margin'', Num 5)]"

definition stackWorld :: "real \<Rightarrow> real \<Rightarrow> real \<Rightarrow> real \<Rightarrow> real \<Rightarrow> real \<Rightarrow> world" where
  "stackWorld w0 h0 cx cy cw ch =
     (\<lambda>n. plainNode 0 0 0 0 None [] [])
       (0 := plainNode 100 100 w0 h0 None [1, 2, 3]
               [(''display'', Str ''vertical''), (''padding'', Num 20), (''gap'', Num 10),
                (''fitContent'', Str ''true''), (''border'', Num 2)],
        1 := plainNode cx cy cw ch (Some 0) [] cardStyle,
        2 := plainNode cx cy cw ch (Some 0) [] cardStyle,
        3 := plainNode cx cy cw ch (Some 0) [] cardStyle)"

text \<open>Scenario "flex grow": a container at \<open>(x0, y0)\<close> with \<open>display: horizontal\<close>,
  \<open>width: 500\<close>, \<open>padding: 0\<close>, \<open>gap: 0\<close> and two children of width 0 with \<open>flex-grow: 1\<close>
  and \<open>flex-grow: 2\<close>.\<close>

definition growWorld :: "real \<Rightarrow> real \<Rightarrow> real \<Rightarrow> real \<Rightarrow> world" where
  "growWorld x0 y0 h0 ch =
     (\<lambda>n. plainNode 0 0 0 0 None [] [])
       (0 := plainNode x0 y0 500 h0 None [1, 2]
               [(''display'', Str ''horizontal''), (''width'', Num 500), (''padding'', Num 0),
                (''gap'', Num 0)],
        1 := plainNode 0 0 0 ch (Some 0) [] [(''flexGrow'', Num 1)],
        2 := plainNode 0 0 0 ch (Some 0) [] [(''flexGrow'', Num 2)])"

text \<open>A row 100 wide with a child that declares \<open>flex-grow: 1\<close>, \<open>flex-shrink: 0\<close> and
  \<open>flex-basis: -10\<close>, and a child 300 wide with \<open>flex-shrink: 1\<close>.\<close>

definition negativeBasisWorld :: world where
  "negativeBasisWorld =
     (\<lambda>n. plainNode 0 0 0 0 None [] [])
       (0 := plainNode 0 0 100 40 None [1, 2]
               [(''display'', Str ''horizontal''), (''width'', Num 100)],
        1 := plainNode 0 0 50 20 (Some 0) []
               [(''width'', Num 50), (''flexGrow'', Num 1), (''flexShrink'', Num 0),
                (''flexBasis'', Num (- 10))],
        2 := plainNode 0 0 300 20 (Some 0) []
               [(''width'', Num 300), (''flexShrink'', Num 1)])"

text \<open>A row 500 wide whose two children, 100 wide, declare \<open>flex-grow: 1\<close>.\<close>

definition evenGrowWorld :: world where
  "evenGrowWorld =
     (\<lambda>n. plainNode 0 0 0 0 None [] [])
       (0 := (plainNode 0 0 500 40 None [1, 2] [])
               \<lparr> computedStyles := Some (Map.empty(''display'' \<mapsto> Str ''horizontal'')) \<rparr>,
        1 := (plainNode 0 0 100 20 (Some 0) [] [])
               \<lparr> computedStyles := Some (Map.empty(''flexGrow'' \<mapsto> Num 1)) \<rparr>,
        2 := (plainNode 0 0 100 20 (Some 0) [] [])
               \<lparr> computedStyles := Some (Map.empty(''flexGrow'' \<mapsto> Num 1)) \<rparr>)"

text \<open>A flex item of base size 100 with shrink factor 1.\<close>

definition shrinkingItem :: flexItem where
  "shrinkingItem =
     \<lparr> fi_instance = 1, fi_boxModel = boxOf Map.empty, fi_flexGrow = 0, fi_flexShrink = Some 1,
       fi_base = 100, fi_min = None, fi_max = None, fi_target = 100, fi_constrained = False \<rparr>"

text \<open>A root that declares \<open>position: absolute\<close> and \<open>padding: 10\<close>, at (100, 100), with one
  child of \<open>width: 50\<close> and \<open>height: 20\<close> placed at \<open>(cx, cy)\<close> before the pass.\<close>

definition absoluteRootWorld :: "real \<Rightarrow> real \<Rightarrow> world" where
  "absoluteRootWorld cx cy =
     (\<lambda>n. plainNode 0 0 0 0 None [] [])
       (0 := plainNode 100 100 200 200 None [1]
               [(''position'', Str ''absolute''), (''padding'', Num 10)],
        1 := plainNode cx cy 0 0 (Some 0) [] [(''width'', Num 50), (''height'', Num 20)])"


section \<open>Notions used in the statements and proofs\<close>

text \<open>The style that \<open>getBoxModel\<close> reads for the parent of a node is within the numbers
  of the model (a node without a parent has none to read).\<close>

definition parentModelled :: "engine \<Rightarrow> world \<Rightarrow> nat \<Rightarrow> bool" where
  "parentModelled eng w i =
     (case parent (w i) of
        None \<Rightarrow> True
      | Some p \<Rightarrow> modelled (stylesOf (ensureStyles eng w p) p))"

text \<open>The grow factors of the items not yet constrained, which \<open>remainingFlexGrow\<close>
  tracks; an item that can be grown without leaving the non-negative sizes; and a
  classification whose items still have their base sizes.\<close>

definition unconstrainedGrow :: "flexItem list \<Rightarrow> real" where
  "unconstrainedGrow items =
     sum_list (map fi_flexGrow (filter (\<lambda>item. \<not> fi_constrained item) items))"

definition saneItem :: "flexItem \<Rightarrow> bool" where
  "saneItem item =
     (0 \<le> fi_flexGrow item \<and> 0 \<le> fi_target item
      \<and> (case fi_max item of Some mx \<Rightarrow> 0 \<le> mx | None \<Rightarrow> True))"

definition freshItems :: "classified \<Rightarrow> bool" where
  "freshItems cl =
     (list_all (\<lambda>item. fi_target item = fi_base item \<and> \<not> fi_constrained item) (cl_flexItems cl)
      \<and> cl_totalFlexGrow cl = sum_list (map fi_flexGrow (cl_flexItems cl)))"

section \<open>Evaluating concrete passes\<close>

text \<open>The definitions a concrete pass is evaluated with.\<close>

lemmas style_eval =
  getInstanceStyles_def stylesToMerge_def classNames_def blank_def is_space_def mergeStyles_def
  mergeOne_def applyProp_def truthy_def orElse_def isPercent_def numOf_def nullish2_def
  nullish3_def numOr_def parseFloat_def nanOr_def boxOf_def ensureStyles_def stylesOf_def
  getBoxModel_def getOuterWidth_def getOuterHeight_def propsOf_def getLayoutProperties_def
  jsPositive_def

lemmas literal_eval =
  is_digit_def digitsValue_def exponentPart_def parseFloat_str_def infinitySpelling_def
  parsesInfinite_def trim_def is_hexDigit_def is_octalDigit_def is_binaryDigit_def
  nonDecimalPositive_def exponentOf_def decimalLiteral_def numberPositive_def

lemmas sizing_eval =
  applyMinMaxConstraints_def availableWidth_def availableHeight_def percentValue_def
  isPositive_def isHorizontalStyle_def isVerticalStyle_def applyPercentageSizing_def
  expandFlex_def clampSize_def applyStylesToInstance_def positionAbsolute_def anchorOffsets_def
  getAnchorPoint_def anchorTargetOf_def positionAnchor_def applyOutOfFlowLayout_def

lemmas flow_eval =
  nanPositive_def nanTimes_def nanPlus_def baseSize_def numLess_def numGreater_def growItem_def
  growLoop.simps shrinkItem_def distribute_def noneClassified_def justifySpacing_def
  outerWidthIn_def outerHeightIn_def itemOuterWidth_def itemOuterHeight_def setWidth_def
  setHeight_def classifyHorizontal_def layoutHorizontal_def classifyVertical_def
  layoutVertical_def applyNormalFlowLayout_def orderKey_def getLayoutChildren_def
  applyFitContentSizing_def hasPercentageSizing_def flexChild_def flexChildIn_def
  hasFlexChildren_def passProps_def flowEnabled_def fitContentPhase_def
  fitContentPhaseStepByStep_def positioned_def

lemmas scene_eval = plainNode_def noClasses_def

section \<open>The cascade is last-write-wins with importance\<close>

text \<open>The loops of \<open>mergeStyles\<close> as one fold over the writes of all merged sources.\<close>

lemma applyProp_as_write:
  "applyProp imps e acc =
     (if fst e \<notin> snd acc \<or> fst e \<in> set imps
      then ((fst acc)(fst e \<mapsto> snd e), if fst e \<in> set imps then insert (fst e) (snd acc) else snd acc)
      else acc)"
  by (cases acc) (simp add: applyProp_def Let_def)

lemma fold_writes_state:
  "fst (fold mergeOne objs (Map.empty, {})) P = cascadeWinner P (concat (map writesOf objs)) \<and>
   (P \<in> snd (fold mergeOne objs (Map.empty, {})) \<longleftrightarrow>
      (\<exists>w \<in> set (concat (map writesOf objs)). fst w = P \<and> snd (snd w)))"
proof (induction objs rule: rev_induct)
  case Nil
  show ?case by (simp add: cascadeWinner_def)
next
  case (snoc so objs)
  define acc where "acc = fold mergeOne objs (Map.empty, {})"
  define ws where "ws = concat (map writesOf objs)"
  have inv: "fst acc P = cascadeWinner P ws"
    "P \<in> snd acc \<longleftrightarrow> (\<exists>w \<in> set ws. fst w = P \<and> snd (snd w))"
    using snoc by (simp_all add: acc_def ws_def)
  have step: "fst (mergeOne so acc) P = cascadeWinner P (ws @ writesOf so) \<and>
      (P \<in> snd (mergeOne so acc) \<longleftrightarrow> (\<exists>w \<in> set (ws @ writesOf so). fst w = P \<and> snd (snd w)))"
  proof (cases so)
    case None
    then show ?thesis using inv by (simp add: mergeOne_def writesOf_def)
  next
    case (Some obj)
    have "fst (fold (applyProp imps) es acc) P =
            cascadeWinner P (ws @ map (\<lambda>e. (fst e, snd e, fst e \<in> set imps)) es) \<and>
          (P \<in> snd (fold (applyProp imps) es acc) \<longleftrightarrow>
            (\<exists>w \<in> set (ws @ map (\<lambda>e. (fst e, snd e, fst e \<in> set imps)) es). fst w = P \<and> snd (snd w)))"
      for imps es
    proof (induction es rule: rev_induct)
      case Nil
      show ?case using inv by simp
    next
      case (snoc e es)
      define a where "a = fold (applyProp imps) es acc"
      define vs where "vs = ws @ map (\<lambda>e. (fst e, snd e, fst e \<in> set imps)) es"
      have ih: "fst a P = cascadeWinner P vs"
        "P \<in> snd a \<longleftrightarrow> (\<exists>w \<in> set vs. fst w = P \<and> snd (snd w))"
        using snoc by (simp_all add: a_def vs_def)
      have imp_iff: "filter (\<lambda>w. snd (snd w)) (filter (\<lambda>w. fst w = P) vs) \<noteq> [] \<longleftrightarrow> P \<in> snd a"
        using ih(2) by (auto simp: filter_empty_conv)
      have "fst (applyProp imps e a) P =
              cascadeWinner P (vs @ [(fst e, snd e, fst e \<in> set imps)]) \<and>
            (P \<in> snd (applyProp imps e a) \<longleftrightarrow>
              (P \<in> snd a \<or> (fst e = P \<and> fst e \<in> set imps)))"
      proof (cases "fst e = P")
        case True
        then show ?thesis using ih(1) imp_iff
          by (auto simp: applyProp_as_write cascadeWinner_def Let_def)
      next
        case False
        then show ?thesis using ih(1)
          by (auto simp: applyProp_as_write cascadeWinner_def Let_def filter_empty_conv)
      qed
      then show ?case using ih(2) by (auto simp: a_def vs_def)
    qed
    then show ?thesis using Some by (simp add: mergeOne_def writesOf_def)
  qed
  then show ?case by (simp add: acc_def ws_def)
qed

lemma writes_registered:
  "concat (map writesOf (map reg (filter (\<lambda>c. reg c \<noteq> None) names)))
     = concat (map (\<lambda>c. writesOf (reg c)) names)"
  by (induction names) (auto simp: writesOf_def)

lemma writes_inline:
  "concat (map writesOf (case inline of None \<Rightarrow> [] | Some s \<Rightarrow> [Some s])) = writesOf inline"
  by (cases inline) (simp_all add: writesOf_def)

text \<open>The class filter gives back the names of a class attribute that lists them.\<close>

lemma split_space_nonempty: "split_space s \<noteq> []"
  by (induction s) (simp_all split: list.split)

lemma split_space_append:
  "CHR '' '' \<notin> set c \<Longrightarrow>
   split_space (c @ s) = (c @ hd (split_space s)) # tl (split_space s)"
proof (induction c)
  case Nil
  then show ?case using split_space_nonempty [of s] by simp
next
  case (Cons a c)
  then have "a \<noteq> CHR '' ''" by auto
  then show ?case using Cons by simp
qed

lemma split_space_join:
  "\<forall>c \<in> set cs. CHR '' '' \<notin> set c \<Longrightarrow> cs \<noteq> [] \<Longrightarrow> split_space (joinSpace cs) = cs"
proof (induction cs rule: joinSpace.induct)
  case 1
  then show ?case by simp
next
  case (2 c)
  then show ?case using split_space_append [of c "[]"] by simp
next
  case (3 c d cs)
  then show ?case using split_space_append [of c "CHR '' '' # joinSpace (d # cs)"] by simp
qed

lemma classNames_join:
  assumes "\<forall>c \<in> set cs. CHR '' '' \<notin> set c \<and> \<not> blank c"
  shows "classNames (i\<lparr>classes := joinSpace cs\<rparr>) = cs"
proof (cases "cs = []")
  case True
  then show ?thesis by (simp add: classNames_def blank_def)
next
  case False
  have "split_space (joinSpace cs) = cs"
    using assms False by (simp add: split_space_join)
  moreover have "filter (\<lambda>c. \<not> blank c) cs = cs"
    using assms by (simp add: filter_id_conv)
  ultimately show ?thesis by (simp add: classNames_def)
qed

text \<open>
  Claim C6. The computed style of a node gives every property the value that wins among
  these writes, taken in this order: the declarations of the registered class styles,
  class after class in the order in which the node's class attribute lists them, and
  after all of them the declarations of the inline style. The winner is the last write
  marked \<open>!important\<close> if there is one, and otherwise the last write. So a later class
  beats an earlier one, the inline style beats the classes, an important value survives
  every later write that is not important, and of two important writes the later wins.
  The second part says that the classes are taken in the order of the attribute: an
  attribute that lists names (free of spaces, not blank) separated by single spaces
  yields these names in this order.
\<close>

theorem cascade_order:
  "getInstanceStyles reg i P =
     cascadeWinner P
       (concat (map (\<lambda>c. writesOf (reg c)) (classNames i)) @ writesOf (inlineStyle i))
   \<and> ((\<forall>c \<in> set cs. CHR '' '' \<notin> set c \<and> \<not> blank c) \<longrightarrow>
        classNames (i\<lparr>classes := joinSpace cs\<rparr>) = cs)"
proof
  have "concat (map writesOf (stylesToMerge reg i))
      = concat (map (\<lambda>c. writesOf (reg c)) (classNames i)) @ writesOf (inlineStyle i)"
    using writes_registered [of reg "classNames i"] writes_inline [of "inlineStyle i"]
    by (simp add: stylesToMerge_def)
  then show "getInstanceStyles reg i P =
      cascadeWinner P
        (concat (map (\<lambda>c. writesOf (reg c)) (classNames i)) @ writesOf (inlineStyle i))"
    using fold_writes_state [of "stylesToMerge reg i" P]
    by (simp add: getInstanceStyles_def mergeStyles_def)
next
  show "(\<forall>c \<in> set cs. CHR '' '' \<notin> set c \<and> \<not> blank c) \<longrightarrow>
      classNames (i\<lparr>classes := joinSpace cs\<rparr>) = cs"
    using classNames_join by blast
qed

text \<open>Classes \<open>base\<close> and \<open>wide\<close> and an inline style: the important width of \<open>base\<close>
  survives \<open>wide\<close> and the inline style; the gap of \<open>wide\<close> beats that of \<open>base\<close>; the
  inline height and left beat those of the classes; of the two important values of
  \<open>top\<close> the later one, of \<open>wide\<close>, wins, also over the inline value.\<close>

theorem cascade_order_witness:
  "getInstanceStyles cascadeRegistry cascadeNode ''width'' = Some (Num 100) \<and>
   getInstanceStyles cascadeRegistry cascadeNode ''gap'' = Some (Num 8) \<and>
   getInstanceStyles cascadeRegistry cascadeNode ''height'' = Some (Num 20) \<and>
   getInstanceStyles cascadeRegistry cascadeNode ''left'' = Some (Num 9) \<and>
   getInstanceStyles cascadeRegistry cascadeNode ''top'' = Some (Num 2) \<and>
   classNames cascadeNode = [''base'', ''wide'']"
proof -
  have names: "\<forall>c \<in> set [''base'', ''wide'']. CHR '' '' \<notin> set c \<and> \<not> blank c"
    by (simp add: blank_def is_space_def)
  have attr: "cascadeNode\<lparr>classes := joinSpace [''base'', ''wide'']\<rparr> = cascadeNode"
    by (simp add: cascadeNode_def)
  have cn: "classNames cascadeNode = [''base'', ''wide'']"
    using cascade_order [of cascadeRegistry cascadeNode "''width''" "[''base'', ''wide'']"]
      names attr by simp
  have "getInstanceStyles cascadeRegistry cascadeNode P =
      cascadeWinner P
        (concat (map (\<lambda>c. writesOf (cascadeRegistry c)) [''base'', ''wide''])
         @ writesOf (inlineStyle cascadeNode))" for P
    using cascade_order [of cascadeRegistry cascadeNode P "[]"] cn by simp
  then show ?thesis
    using cn
    by (simp add: cascadeWinner_def writesOf_def cascadeRegistry_def cascadeNode_def
        plainNode_def)
qed

section \<open>Conflicting minimum and maximum\<close>

lemma clampSize_width:
  "numOf (st ''minWidth'') = Some mn \<Longrightarrow> numOf (st ''maxWidth'') = Some mx \<Longrightarrow>
   iwidth (clampSize i st) = min (max (iwidth i) mn) mx"
  by (simp add: clampSize_def Let_def split: option.split)

lemma clampSize_height:
  "numOf (st ''minHeight'') = Some mn \<Longrightarrow> numOf (st ''maxHeight'') = Some mx \<Longrightarrow>
   iheight (clampSize i st) = min (max (iheight i) mn) mx"
  by (simp add: clampSize_def Let_def split: option.split)

lemma applyMinMax_width:
  "numOf (st ''minWidth'') = Some mn \<Longrightarrow> numOf (st ''maxWidth'') = Some mx \<Longrightarrow> mx < mn \<Longrightarrow>
   iwidth (applyMinMaxConstraints i st) = mx"
  by (simp add: applyMinMaxConstraints_def Let_def split: option.split)

lemma applyMinMax_height:
  "numOf (st ''minHeight'') = Some mn \<Longrightarrow> numOf (st ''maxHeight'') = Some mx \<Longrightarrow> mx < mn \<Longrightarrow>
   iheight (applyMinMaxConstraints i st) = mx"
  by (simp add: applyMinMaxConstraints_def Let_def split: option.split)

lemma expandFlex_other:
  "k \<noteq> ''flexGrow'' \<Longrightarrow> k \<noteq> ''flexShrink'' \<Longrightarrow> k \<noteq> ''flexBasis'' \<Longrightarrow> expandFlex st k = st k"
  by (simp add: expandFlex_def split: option.split jsval.split)

lemma applyStyles_node:
  "\<exists>i'. applyStylesToInstance eng w j st j = clampSize i' (expandFlex st)"
  by (simp only: applyStylesToInstance_def Let_def fun_upd_same) (rule exI, rule refl)

lemma applyPercentage_node:
  "computedStyles (w j) = Some st \<Longrightarrow> parent (w j) = Some p \<Longrightarrow>
   \<exists>i'. applyPercentageSizing eng w j j = applyMinMaxConstraints i' st"
  by (simp only: applyPercentageSizing_def Let_def fun_upd_same option.case) (rule exI, rule refl)

lemma applyStyles_width_conflict:
  assumes "st ''minWidth'' = Some (Num mn)" "st ''maxWidth'' = Some (Num mx)" "mx < mn"
  shows "iwidth (applyStylesToInstance eng w j st j) = mx"
proof -
  have e: "numOf (expandFlex st ''minWidth'') = Some mn" "numOf (expandFlex st ''maxWidth'') = Some mx"
    using assms by (simp_all add: expandFlex_other numOf_def)
  obtain i' where "applyStylesToInstance eng w j st j = clampSize i' (expandFlex st)"
    using applyStyles_node by blast
  then show ?thesis using clampSize_width [OF e] assms(3) by simp
qed

lemma applyStyles_height_conflict:
  assumes "st ''minHeight'' = Some (Num mn)" "st ''maxHeight'' = Some (Num mx)" "mx < mn"
  shows "iheight (applyStylesToInstance eng w j st j) = mx"
proof -
  have e: "numOf (expandFlex st ''minHeight'') = Some mn" "numOf (expandFlex st ''maxHeight'') = Some mx"
    using assms by (simp_all add: expandFlex_other numOf_def)
  obtain i' where "applyStylesToInstance eng w j st j = clampSize i' (expandFlex st)"
    using applyStyles_node by blast
  then show ?thesis using clampSize_height [OF e] assms(3) by simp
qed

lemma applyPercentage_width_conflict:
  assumes "st ''minWidth'' = Some (Num mn)" "st ''maxWidth'' = Some (Num mx)" "mx < mn"
    and "computedStyles (w j) = Some st" "parent (w j) \<noteq> None"
  shows "iwidth (applyPercentageSizing eng w j j) = mx"
proof -
  obtain p where "parent (w j) = Some p" using assms(5) by auto
  then obtain i' where "applyPercentageSizing eng w j j = applyMinMaxConstraints i' st"
    using applyPercentage_node assms(4) by blast
  then show ?thesis
    using applyMinMax_width [of st mn mx i'] assms(1-3) by (simp add: numOf_def)
qed

lemma applyPercentage_height_conflict:
  assumes "st ''minHeight'' = Some (Num mn)" "st ''maxHeight'' = Some (Num mx)" "mx < mn"
    and "computedStyles (w j) = Some st" "parent (w j) \<noteq> None"
  shows "iheight (applyPercentageSizing eng w j j) = mx"
proof -
  obtain p where "parent (w j) = Some p" using assms(5) by auto
  then obtain i' where "applyPercentageSizing eng w j j = applyMinMaxConstraints i' st"
    using applyPercentage_node assms(4) by blast
  then show ?thesis
    using applyMinMax_height [of st mn mx i'] assms(1-3) by (simp add: numOf_def)
qed

text \<open>Styles within and outside the numbers of the model: a percentage width and a
  numeric padding are within; a padding of \<open>10px\<close>, which the style parser keeps as a
  string, and a width of \<open>Infinity%\<close> are outside.\<close>

lemma modelled_examples:
  "modelled (Map.empty(''width'' \<mapsto> Str ''50%'', ''padding'' \<mapsto> Num 10))"
  "\<not> modelled (Map.empty(''padding'' \<mapsto> Str ''10px''))"
  "\<not> modelled (Map.empty(''width'' \<mapsto> Str ''Infinity%''))"
  by (simp_all add: modelled_def numericProperties_def parsedProperties_def literal_eval
      is_space_def)

text \<open>An item that the grow loop grows: whatever the remaining grow total is, zero
  included, the share is compared with the minimum first and with the maximum last.\<close>

lemma growItem_conflict:
  assumes "fi_min item = Some mn" "fi_max item = Some mx" "mx < mn" "\<not> fi_constrained item"
    "0 < fi_flexGrow item" "rs \<noteq> 0"
  shows "\<exists>r. growItem rs item (g, c, f) = Inr r \<and> fi_target (fst r) = mx \<and> fi_constrained (fst r)"
proof (cases "g = 0")
  case True
  then show ?thesis
    using assms by (cases "rs > 0") (auto simp: growItem_def Let_def numLess_def numGreater_def)
next
  case False
  then show ?thesis
    using assms by (auto simp: growItem_def Let_def numLess_def numGreater_def)
qed

text \<open>
  Claim C1, as the code has it. When a style declares a numeric minimum and a numeric
  maximum on one axis with the minimum above the maximum, the maximum wins wherever both
  are applied to a size that is a number: in \<open>applyMinMaxConstraints\<close>; in the final clamp
  of \<open>applyStylesToInstance\<close> (after explicit sizing) and at the end of
  \<open>applyPercentageSizing\<close>, for a node whose style and whose parent's style are within
  the numbers of the model (so that a percentage size is a number and not NaN, which
  would pass the bounds unchanged); and for an item grown in a pass of the flex-grow
  loop, whatever the remaining grow total is, as long as the remaining space is not 0
  (in the loop it is above 0.1); the item is then marked constrained. In each case the
  resulting width or height is the maximum, not the minimum.
\<close>

theorem minmax_conflict_max_wins:
  assumes "mx < mn"
  shows
    "(st ''minWidth'' = Some (Num mn) \<and> st ''maxWidth'' = Some (Num mx) \<longrightarrow>
        iwidth (applyMinMaxConstraints i st) = mx
        \<and> (modelled st \<and> parentModelled eng w j \<longrightarrow>
             iwidth (applyStylesToInstance eng w j st j) = mx)
        \<and> (computedStyles (w j) = Some st \<and> parent (w j) \<noteq> None
             \<and> modelled st \<and> parentModelled eng w j \<longrightarrow>
             iwidth (applyPercentageSizing eng w j j) = mx))
     \<and> (st ''minHeight'' = Some (Num mn) \<and> st ''maxHeight'' = Some (Num mx) \<longrightarrow>
        iheight (applyMinMaxConstraints i st) = mx
        \<and> (modelled st \<and> parentModelled eng w j \<longrightarrow>
             iheight (applyStylesToInstance eng w j st j) = mx)
        \<and> (computedStyles (w j) = Some st \<and> parent (w j) \<noteq> None
             \<and> modelled st \<and> parentModelled eng w j \<longrightarrow>
             iheight (applyPercentageSizing eng w j j) = mx))
     \<and> (fi_min item = Some mn \<and> fi_max item = Some mx \<and> \<not> fi_constrained item
         \<and> 0 < fi_flexGrow item \<and> rs \<noteq> 0 \<longrightarrow>
        (\<exists>r. growItem rs item (g, c, f) = Inr r \<and> fi_target (fst r) = mx
              \<and> fi_constrained (fst r)))"
proof -
  have width: "iwidth (applyMinMaxConstraints i st) = mx
      \<and> iwidth (applyStylesToInstance eng w j st j) = mx
      \<and> (computedStyles (w j) = Some st \<and> parent (w j) \<noteq> None \<longrightarrow>
           iwidth (applyPercentageSizing eng w j j) = mx)"
    if "st ''minWidth'' = Some (Num mn) \<and> st ''maxWidth'' = Some (Num mx)"
    using that assms applyMinMax_width [of st mn mx i]
      applyStyles_width_conflict [of st mn mx eng w j]
      applyPercentage_width_conflict [of st mn mx w j eng]
    by (simp add: numOf_def)
  have height: "iheight (applyMinMaxConstraints i st) = mx
      \<and> iheight (applyStylesToInstance eng w j st j) = mx
      \<and> (computedStyles (w j) = Some st \<and> parent (w j) \<noteq> None \<longrightarrow>
           iheight (applyPercentageSizing eng w j j) = mx)"
    if "st ''minHeight'' = Some (Num mn) \<and> st ''maxHeight'' = Some (Num mx)"
    using that assms applyMinMax_height [of st mn mx i]
      applyStyles_height_conflict [of st mn mx eng w j]
      applyPercentage_height_conflict [of st mn mx w j eng]
    by (simp add: numOf_def)
  have grow: "\<exists>r. growItem rs item (g, c, f) = Inr r \<and> fi_target (fst r) = mx
      \<and> fi_constrained (fst r)"
    if "fi_min item = Some mn \<and> fi_max item = Some mx \<and> \<not> fi_constrained item
      \<and> 0 < fi_flexGrow item \<and> rs \<noteq> 0"
    using that assms growItem_conflict [of item mn mx rs g c f] by blast
  show ?thesis
    using width height grow by blast
qed

text \<open>A node with \<open>min-width: 100\<close>, \<open>max-width: 50\<close> and \<open>width: 50%\<close> (and the same for
  the height) in a parent of size 400 by 400, and a flex item with these bounds grown
  with a remaining grow total of 1 and of 0: every size ends at 50.\<close>

theorem minmax_conflict_max_wins_witness:
  "(50::real) < 100 \<and> modelled conflictStyle \<and> parentModelled noClasses conflictWorld 1 \<and>
   iwidth (applyMinMaxConstraints conflictNode conflictStyle) = 50 \<and>
   iheight (applyMinMaxConstraints conflictNode conflictStyle) = 50 \<and>
   iwidth (applyStylesToInstance noClasses conflictWorld 1 conflictStyle 1) = 50 \<and>
   iheight (applyStylesToInstance noClasses conflictWorld 1 conflictStyle 1) = 50 \<and>
   iwidth (applyPercentageSizing noClasses conflictWorld 1 1) = 50 \<and>
   iheight (applyPercentageSizing noClasses conflictWorld 1 1) = 50 \<and>
   (\<exists>r. growItem 300 conflictItem (1, 0, False) = Inr r \<and> fi_target (fst r) = 50) \<and>
   (\<exists>r. growItem 300 conflictItem (0, 0, False) = Inr r \<and> fi_target (fst r) = 50)"
proof -
  have lt: "(50::real) < 100" by simp
  have st: "conflictStyle ''minWidth'' = Some (Num 100) \<and> conflictStyle ''maxWidth'' = Some (Num 50)"
    "conflictStyle ''minHeight'' = Some (Num 100) \<and> conflictStyle ''maxHeight'' = Some (Num 50)"
    by (simp_all add: conflictStyle_def)
  have md: "modelled conflictStyle"
    by (simp add: modelled_def numericProperties_def parsedProperties_def conflictStyle_def
        literal_eval is_space_def)
  have pm: "parentModelled noClasses conflictWorld 1"
    by (simp add: parentModelled_def modelled_def numericProperties_def parsedProperties_def
        conflictWorld_def scene_eval style_eval)
  have nd: "computedStyles (conflictWorld 1) = Some conflictStyle \<and> parent (conflictWorld 1) \<noteq> None"
    by (simp add: conflictWorld_def plainNode_def)
  have it: "fi_min conflictItem = Some 100 \<and> fi_max conflictItem = Some 50
      \<and> \<not> fi_constrained conflictItem \<and> 0 < fi_flexGrow conflictItem \<and> (300::real) \<noteq> 0"
    by (simp add: conflictItem_def)
  show ?thesis
    using lt st md pm nd it
      minmax_conflict_max_wins [OF lt, of conflictStyle conflictNode noClasses conflictWorld 1
        conflictItem 300 1 0 False]
      minmax_conflict_max_wins [OF lt, of conflictStyle conflictNode noClasses conflictWorld 1
        conflictItem 300 0 0 False]
    by blast
qed

text \<open>The claim as stated, that the minimum wins, fails at these inputs: each result is
  the maximum 50 and not the minimum 100.\<close>

theorem minmax_min_wins_counterexample:
  "iwidth (applyMinMaxConstraints conflictNode conflictStyle) \<noteq> 100 \<and>
   iwidth (applyStylesToInstance noClasses conflictWorld 1 conflictStyle 1) \<noteq> 100 \<and>
   iwidth (applyPercentageSizing noClasses conflictWorld 1 1) \<noteq> 100 \<and>
   (case growItem 300 conflictItem (1, 0, False) of
      Inl e \<Rightarrow> False
    | Inr r \<Rightarrow> fi_target (fst r) = 50)"
proof -
  have st: "conflictStyle ''minWidth'' = Some (Num 100)" "conflictStyle ''maxWidth'' = Some (Num 50)"
    by (simp_all add: conflictStyle_def)
  have "iwidth (applyMinMaxConstraints conflictNode conflictStyle) = 50"
    using applyMinMax_width [of conflictStyle 100 50 conflictNode] st by (simp add: numOf_def)
  moreover have "iwidth (applyStylesToInstance noClasses conflictWorld 1 conflictStyle 1) = 50"
    using applyStyles_width_conflict [OF st] by simp
  moreover have "iwidth (applyPercentageSizing noClasses conflictWorld 1 1) = 50"
    using applyPercentage_width_conflict [OF st, of conflictWorld 1 noClasses]
    by (simp add: conflictWorld_def plainNode_def)
  moreover have "case growItem 300 conflictItem (1, 0, False) of
      Inl e \<Rightarrow> False | Inr r \<Rightarrow> fi_target (fst r) = 50"
    by (simp add: growItem_def conflictItem_def Let_def numLess_def numGreater_def)
  ultimately show ?thesis by simp
qed
section \<open>Out-of-flow positioning\<close>

lemma cornerWorld_pass:
  "case processInstance (Suc (Suc 0)) noClasses (cornerWorld pw ph cx cy cw ch) 0 of
     Inl e \<Rightarrow> False
   | Inr w \<Rightarrow> ix (w 1) = 423 \<and> iy (w 1) = 323 \<and> iwidth (w 1) = 50 \<and> iheight (w 1) = 50
               \<and> ix (w 0) = 0 \<and> iy (w 0) = 0 \<and> iwidth (w 0) = 500 \<and> iheight (w 0) = 400"
  by (simp add: cornerWorld_def scene_eval style_eval sizing_eval flow_eval Let_def
      cong: let_weak_cong)

text \<open>
  Claim C4, as the code has it. In the scenario of the parent at (0, 0) with width 500,
  height 400, padding 15 and border 2 and the child with \<open>position: absolute\<close>,
  \<open>right: 10\<close>, \<open>bottom: 10\<close>, width 50 and height 50, one pass over the parent ends with
  the child at \<open>x = 500 - 15 - 2 - 10 - 50 = 423\<close> and \<open>y = 400 - 15 - 2 - 10 - 50 = 323\<close>:
  the content rectangle that \<open>positionAbsolute\<close> measures from lies inside the padding
  as well as the border.
\<close>

theorem absolute_corner:
  "\<exists>w. processInstance (Suc (Suc 0)) noClasses (cornerWorld pw ph cx cy cw ch) 0 = Inr w
       \<and> ix (w 1) = 423 \<and> iy (w 1) = 323"
  using cornerWorld_pass [of pw ph cx cy cw ch] by (auto split: sum.splits)

theorem absolute_corner_witness:
  "\<exists>w. processInstance (Suc (Suc 0)) noClasses (cornerWorld 500 400 0 0 50 50) 0 = Inr w
       \<and> ix (w 1) = 423 \<and> iy (w 1) = 323"
  using absolute_corner [of 500 400 0 0 50 50] by simp

text \<open>The claim as stated puts the child at (438, 338); the pass does not.\<close>

theorem absolute_corner_counterexample:
  "\<exists>w. processInstance (Suc (Suc 0)) noClasses (cornerWorld 500 400 0 0 50 50) 0 = Inr w
       \<and> ix (w 1) \<noteq> 438 \<and> iy (w 1) \<noteq> 338"
  using cornerWorld_pass [of 500 400 0 0 50 50] by (auto split: sum.splits)

lemma anchorOffsets_moved:
  "anchorOffsets (n\<lparr>ix := a, iy := b\<rparr>) p = anchorOffsets n p"
  by (simp add: anchorOffsets_def)

text \<open>
  Claim C5, as the code has it. When the target of an anchored node resolves to a node
  other than the node itself, then after \<open>positionAnchor\<close> the point \<open>selfAnchor\<close> of the
  node lies, in world space, at the point \<open>anchorPoint\<close> of the target moved by
  \<open>(anchorOffsetX, anchorOffsetY)\<close>, whatever the two anchor names are.
\<close>

theorem anchor_points_meet:
  assumes "anchorTargetOf eng w i lp = Some t" and "t \<noteq> i"
  shows "getAnchorPoint (positionAnchor eng w i lp i) (lp_selfAnchor lp) False =
           (fst (getAnchorPoint (positionAnchor eng w i lp t) (lp_anchorPoint lp) False)
              + lp_anchorOffsetX lp,
            snd (getAnchorPoint (positionAnchor eng w i lp t) (lp_anchorPoint lp) False)
              + lp_anchorOffsetY lp)"
  using assms by (simp add: positionAnchor_def getAnchorPoint_def Let_def anchorOffsets_moved)

theorem anchor_points_meet_witness:
  "anchorTargetOf tipEngine tooltipWorld 3 tooltipProps = Some 2 \<and> (2::nat) \<noteq> 3 \<and>
   ix (positionAnchor tipEngine tooltipWorld 3 tooltipProps 3) = 90 \<and>
   iy (positionAnchor tipEngine tooltipWorld 3 tooltipProps 3) = 5 \<and>
   getAnchorPoint (positionAnchor tipEngine tooltipWorld 3 tooltipProps 3) (Str ''bottom'') False
     = (150, 45)"
proof -
  have t: "anchorTargetOf tipEngine tooltipWorld 3 tooltipProps = Some 2"
    by (simp add: anchorTargetOf_def tipEngine_def tooltipWorld_def tooltipProps_def
        plainNode_def propsOf_def truthy_def orElse_def numOf_def numOr_def)
  have ne: "(2::nat) \<noteq> 3" by simp
  have p: "lp_selfAnchor tooltipProps = Str ''bottom''" "lp_anchorPoint tooltipProps = Str ''top''"
    "lp_anchorOffsetX tooltipProps = 0" "lp_anchorOffsetY tooltipProps = - 5"
    by (simp_all add: tooltipProps_def propsOf_def truthy_def orElse_def numOf_def numOr_def)
  have tgt: "positionAnchor tipEngine tooltipWorld 3 tooltipProps 2 = tooltipWorld 2"
    using t by (simp add: positionAnchor_def Let_def)
  have pt: "getAnchorPoint (tooltipWorld 2) (Str ''top'') False = (150, 50)"
    by (simp add: getAnchorPoint_def anchorOffsets_def tooltipWorld_def plainNode_def Let_def)
  have meet: "getAnchorPoint (positionAnchor tipEngine tooltipWorld 3 tooltipProps 3)
      (Str ''bottom'') False = (150, 45)"
    using anchor_points_meet [OF t ne] by (simp add: p tgt pt)
  have sz: "iwidth (positionAnchor tipEngine tooltipWorld 3 tooltipProps 3) = 120"
    "iheight (positionAnchor tipEngine tooltipWorld 3 tooltipProps 3) = 40"
    using t by (simp_all add: positionAnchor_def Let_def tooltipWorld_def plainNode_def)
  from meet sz have "ix (positionAnchor tipEngine tooltipWorld 3 tooltipProps 3) = 90"
    "iy (positionAnchor tipEngine tooltipWorld 3 tooltipProps 3) = 5"
    by (simp_all add: getAnchorPoint_def anchorOffsets_def Let_def)
  with t ne meet show ?thesis by simp
qed

text \<open>A node whose target is the node itself: its centre ends at (10, 10), where the
  top-left corner of the target was before the move, while the top-left corner of the
  target, which has moved with it, is at (-40, -10).\<close>

theorem anchor_self_target_counterexample:
  "anchorTargetOf tipEngine selfAnchorWorld 1 selfAnchorProps = Some 1 \<and>
   getAnchorPoint (positionAnchor tipEngine selfAnchorWorld 1 selfAnchorProps 1)
     (lp_selfAnchor selfAnchorProps) False = (10, 10) \<and>
   getAnchorPoint (positionAnchor tipEngine selfAnchorWorld 1 selfAnchorProps 1)
     (lp_anchorPoint selfAnchorProps) False = (- 40, - 10) \<and>
   lp_anchorOffsetX selfAnchorProps = 0 \<and> lp_anchorOffsetY selfAnchorProps = 0"
  by (simp add: anchorTargetOf_def positionAnchor_def getAnchorPoint_def anchorOffsets_def
      tipEngine_def selfAnchorWorld_def selfAnchorProps_def plainNode_def propsOf_def
      truthy_def orElse_def numOf_def numOr_def Let_def)

section \<open>Two flow scenarios\<close>

lemma stackWorld_pass:
  "case processInstance (Suc (Suc 0)) noClasses (stackWorld w0 h0 cx cy cw ch) 0 of
     Inl e \<Rightarrow> False
   | Inr w \<Rightarrow>
       iwidth (w 1) = 200 \<and> iheight (w 1) = 80 \<and> iy (w 1) = 127 \<and>
       iwidth (w 2) = 200 \<and> iheight (w 2) = 80 \<and> iy (w 2) = 227 \<and>
       iwidth (w 3) = 200 \<and> iheight (w 3) = 80 \<and> iy (w 3) = 327 \<and>
       ix (w 1) = 127 \<and> ix (w 2) = 127 \<and> ix (w 3) = 127 \<and>
       iheight (w 0) = 334 \<and> iwidth (w 0) = 254 \<and> ix (w 0) = 100 \<and> iy (w 0) = 100"
  by (simp add: stackWorld_def cardStyle_def scene_eval style_eval sizing_eval flow_eval Let_def
      cong: let_weak_cong)

text \<open>
  Claim C2. For the root at (100, 100) with \<open>display: vertical\<close>, \<open>padding: 20\<close>,
  \<open>gap: 10\<close>, \<open>fitContent: true\<close>, \<open>border: 2\<close> and three in-flow children with
  \<open>width: 200\<close>, \<open>height: 80\<close>, \<open>margin: 5\<close>, one pass returns, leaves every child 200 wide
  and 80 high, puts the children at \<open>y\<close> 127, 227 and 327, and makes the root 334 high
  and 254 wide, whatever sizes and places the nodes had before.
\<close>

theorem vertical_stack_fit_content:
  "\<exists>w. processInstance (Suc (Suc 0)) noClasses (stackWorld w0 h0 cx cy cw ch) 0 = Inr w
       \<and> iwidth (w 1) = 200 \<and> iheight (w 1) = 80 \<and> iy (w 1) = 127
       \<and> iwidth (w 2) = 200 \<and> iheight (w 2) = 80 \<and> iy (w 2) = 227
       \<and> iwidth (w 3) = 200 \<and> iheight (w 3) = 80 \<and> iy (w 3) = 327
       \<and> iheight (w 0) = 334 \<and> iwidth (w 0) = 254"
  using stackWorld_pass [of w0 h0 cx cy cw ch] by (auto split: sum.splits)

theorem vertical_stack_fit_content_witness:
  "\<exists>w. processInstance (Suc (Suc 0)) noClasses (stackWorld 40 30 0 0 10 10) 0 = Inr w
       \<and> iy (w 1) = 127 \<and> iy (w 2) = 227 \<and> iy (w 3) = 327
       \<and> iheight (w 0) = 334 \<and> iwidth (w 0) = 254"
  using vertical_stack_fit_content [of 40 30 0 0 10 10] by auto

lemma growWorld_pass:
  "case processInstance (Suc (Suc 0)) noClasses (growWorld x0 y0 h0 ch) 0 of
     Inl e \<Rightarrow> False
   | Inr w \<Rightarrow>
       iwidth (w 1) = 500 / 3 \<and> iwidth (w 2) = 1000 / 3 \<and>
       ix (w 1) = x0 \<and> ix (w 2) = x0 + 500 / 3 \<and> iwidth (w 0) = 500"
  by (simp add: growWorld_def scene_eval style_eval sizing_eval flow_eval Let_def
      cong: let_weak_cong)

text \<open>
  Claim C3. For the container with \<open>display: horizontal\<close>, width 500, \<open>padding: 0\<close>,
  \<open>gap: 0\<close> and the two in-flow children of initial width 0 with \<open>flexGrow: 1\<close> and
  \<open>flexGrow: 2\<close>, the pass returns; the grow distribution gives the children the widths
  \<open>500 / 3\<close> and \<open>1000 / 3\<close>, which are within 0.1 of 166.67 and 333.33, and puts them at
  the distances 0 and \<open>500 / 3\<close>, within 0.1 of 166.67, from the content origin of the
  container (its \<open>x\<close>, as padding and border are 0).
\<close>

theorem flex_grow_thirds:
  "\<exists>w. processInstance (Suc (Suc 0)) noClasses (growWorld x0 y0 h0 ch) 0 = Inr w
       \<and> \<bar>iwidth (w 1) - 166.67\<bar> \<le> 0.1 \<and> \<bar>iwidth (w 2) - 333.33\<bar> \<le> 0.1
       \<and> ix (w 1) - x0 = 0 \<and> \<bar>(ix (w 2) - x0) - 166.67\<bar> \<le> 0.1
       \<and> iwidth (w 1) = 500 / 3 \<and> iwidth (w 2) = 1000 / 3"
  using growWorld_pass [of x0 y0 h0 ch] by (auto split: sum.splits)

theorem flex_grow_thirds_witness:
  "\<exists>w. processInstance (Suc (Suc 0)) noClasses (growWorld 0 0 100 20) 0 = Inr w
       \<and> \<bar>iwidth (w 1) - 166.67\<bar> \<le> 0.1 \<and> \<bar>iwidth (w 2) - 333.33\<bar> \<le> 0.1
       \<and> ix (w 1) = 0 \<and> \<bar>ix (w 2) - 166.67\<bar> \<le> 0.1"
  using flex_grow_thirds [of 0 0 100 20] by auto

section \<open>Flex distribution and negative sizes\<close>

lemma shrinkItem_nonneg:
  "nanPositive (fi_flexShrink item) \<Longrightarrow> 0 \<le> fi_target (shrinkItem deficit tot item)"
  by (simp add: shrinkItem_def Let_def split: option.split)

lemma shrinkItem_sane:
  "0 \<le> fi_base item \<Longrightarrow> 0 \<le> fi_target (shrinkItem deficit tot item)"
  by (simp add: shrinkItem_def Let_def split: option.split)

lemma shrinkItem_instance: "fi_instance (shrinkItem deficit tot item) = fi_instance item"
  by (simp add: shrinkItem_def Let_def)

lemma unconstrainedGrow_Cons:
  "unconstrainedGrow (item # items) =
     (if fi_constrained item then 0 else fi_flexGrow item) + unconstrainedGrow items"
  by (simp add: unconstrainedGrow_def)

lemma unconstrainedGrow_nonneg:
  "\<forall>item \<in> set items. saneItem item \<Longrightarrow> 0 \<le> unconstrainedGrow items"
  by (induction items) (auto simp: unconstrainedGrow_Cons saneItem_def unconstrainedGrow_def)

text \<open>One item of a pass: with the remaining grow total at least the item's own share,
  the division is defined, the item stays sane, and the total keeps its distance from
  the grow factors that are not constrained.\<close>

lemma growItem_sane:
  assumes s: "saneItem item" and rs: "0 \<le> rs"
    and g: "(if fi_constrained item then 0 else fi_flexGrow item) \<le> g"
  shows "\<exists>item' g' c' f'. growItem rs item (g, c, f) = Inr (item', g', c', f')
           \<and> saneItem item' \<and> fi_instance item' = fi_instance item
           \<and> g' - (if fi_constrained item' then 0 else fi_flexGrow item')
               = g - (if fi_constrained item then 0 else fi_flexGrow item)"
proof (cases "fi_constrained item \<or> \<not> 0 < fi_flexGrow item")
  case True
  then show ?thesis using s by (auto simp: growItem_def Let_def)
next
  case False
  then have grow: "0 < fi_flexGrow item" and unc: "\<not> fi_constrained item" by auto
  with g have gpos: "0 < g" by simp
  have extra: "0 \<le> fi_flexGrow item / g * rs"
    using grow gpos rs by simp
  have tgt: "0 \<le> fi_target item" using s by (simp add: saneItem_def)
  have mx: "\<And>m. fi_max item = Some m \<Longrightarrow> 0 \<le> m"
    using s by (simp add: saneItem_def)
  show ?thesis
    using grow unc gpos extra tgt mx
    by (auto simp: growItem_def Let_def saneItem_def numLess_def numGreater_def
        split: option.splits)
qed

lemma growPass_sane:
  "\<forall>item \<in> set items. saneItem item \<Longrightarrow> 0 \<le> rs \<Longrightarrow> unconstrainedGrow items \<le> g \<Longrightarrow>
   \<exists>items' g' c' f'. growPass rs items (g, c, f) = Inr (items', g', c', f')
      \<and> (\<forall>item \<in> set items'. saneItem item)
      \<and> map fi_instance items' = map fi_instance items
      \<and> g' - unconstrainedGrow items' = g - unconstrainedGrow items"
proof (induction items arbitrary: g c f)
  case Nil
  then show ?case by simp
next
  case (Cons item items)
  have rest: "0 \<le> unconstrainedGrow items"
    using Cons.prems(1) by (simp add: unconstrainedGrow_nonneg)
  have own: "(if fi_constrained item then 0 else fi_flexGrow item) \<le> g"
    using Cons.prems(3) rest by (simp add: unconstrainedGrow_Cons split: if_splits)
  obtain item' g1 c1 f1 where
    it: "growItem rs item (g, c, f) = Inr (item', g1, c1, f1)" "saneItem item'"
      "fi_instance item' = fi_instance item"
      "g1 - (if fi_constrained item' then 0 else fi_flexGrow item')
         = g - (if fi_constrained item then 0 else fi_flexGrow item)"
    using growItem_sane [OF _ Cons.prems(2) own, of c f] Cons.prems(1) by auto
  have nonneg': "0 \<le> (if fi_constrained item' then 0 else fi_flexGrow item')"
    using it(2) by (simp add: saneItem_def)
  have "unconstrainedGrow items \<le> g1"
    using it(4) Cons.prems(3) nonneg' by (simp add: unconstrainedGrow_Cons split: if_splits)
  then obtain items' g' c' f' where
    ps: "growPass rs items (g1, c1, f1) = Inr (items', g', c', f')"
      "\<forall>item \<in> set items'. saneItem item" "map fi_instance items' = map fi_instance items"
      "g' - unconstrainedGrow items' = g1 - unconstrainedGrow items"
    using Cons.IH [of g1 c1 f1] Cons.prems by auto
  have "growPass rs (item # items) (g, c, f) = Inr (item' # items', g', c', f')"
    using it(1) ps(1) by simp
  moreover have "g' - unconstrainedGrow (item' # items') = g - unconstrainedGrow (item # items)"
    using it(4) ps(4) by (simp add: unconstrainedGrow_Cons split: if_splits)
  ultimately show ?case using it(2,3) ps(2,3) by auto
qed

lemma growLoop_sane:
  "\<forall>item \<in> set items. saneItem item \<Longrightarrow> unconstrainedGrow items \<le> g \<Longrightarrow>
   \<exists>items'. growLoop items rs g f = Inr items'
      \<and> (\<forall>item \<in> set items'. saneItem item)
      \<and> map fi_instance items' = map fi_instance items"
proof (induction items rs g f rule: growLoop.induct)
  case (1 items rs g f)
  show ?case
  proof (cases "rs > 0.1 \<and> g > 0 \<and> f")
    case False
    then show ?thesis using "1.prems" by (subst growLoop.simps) auto
  next
    case True
    then have rs: "0 \<le> rs" by simp
    obtain items' g' c' f' where
      ps: "growPass rs items (g, 0, False) = Inr (items', g', c', f')"
        "\<forall>item \<in> set items'. saneItem item" "map fi_instance items' = map fi_instance items"
        "g' - unconstrainedGrow items' = g - unconstrainedGrow items"
      using growPass_sane [OF "1.prems"(1) rs "1.prems"(2), of 0 False] by auto
    show ?thesis
    proof (cases "c' < 0.01")
      case small: True
      have "growLoop items rs g f = Inr items'"
        using True ps(1) small by (subst growLoop.simps) simp
      then show ?thesis using ps by simp
    next
      case big: False
      have le: "unconstrainedGrow items' \<le> g'"
        using ps(4) "1.prems"(2) by simp
      have eq: "growLoop items rs g f = growLoop items' (rs - c') g' f'"
        using True ps(1) big by (subst growLoop.simps) simp
      obtain items'' where
        "growLoop items' (rs - c') g' f' = Inr items''"
        "\<forall>item \<in> set items''. saneItem item" "map fi_instance items'' = map fi_instance items'"
        using "1.IH" [of "(items', g', c', f')"] True ps(1,2) le big by auto
      then show ?thesis using eq ps(3) by simp
    qed
  qed
qed

text \<open>The classification loops hand over items that still have their base sizes, with
  the grow total being the sum of their grow factors.\<close>

lemma freshItems_classifyHorizontal: "freshItems acc \<Longrightarrow> freshItems (classifyHorizontal eng c acc)"
  by (simp add: freshItems_def classifyHorizontal_def Let_def)

lemma freshItems_classifyVertical: "freshItems acc \<Longrightarrow> freshItems (classifyVertical eng c acc)"
  by (simp add: freshItems_def classifyVertical_def Let_def)

lemma freshItems_fold_horizontal:
  "freshItems acc \<Longrightarrow> freshItems (fold (classifyHorizontal eng) cs acc)"
  by (induction cs arbitrary: acc) (simp_all add: freshItems_classifyHorizontal)

lemma freshItems_fold_vertical:
  "freshItems acc \<Longrightarrow> freshItems (fold (classifyVertical eng) cs acc)"
  by (induction cs arbitrary: acc) (simp_all add: freshItems_classifyVertical)

lemma freshItems_none: "freshItems (noneClassified w)"
  by (simp add: freshItems_def noneClassified_def)

lemma unconstrainedGrow_fresh:
  "list_all (\<lambda>item. fi_target item = fi_base item \<and> \<not> fi_constrained item) items \<Longrightarrow>
   unconstrainedGrow items = sum_list (map fi_flexGrow items)"
  by (induction items) (simp_all add: unconstrainedGrow_Cons, simp add: unconstrainedGrow_def)

lemma distribute_nonneg:
  assumes fresh: "freshItems cl"
    and ok: "\<forall>item \<in> set (cl_flexItems cl). 0 \<le> fi_base item \<and> 0 \<le> fi_flexGrow item
               \<and> (\<forall>mx. fi_max item = Some mx \<longrightarrow> 0 \<le> mx)"
  shows "\<exists>items'. distribute (cl_flexItems cl) a (cl_totalFlexGrow cl)
                     (cl_totalFlexShrinkFactors cl) = Inr items'
           \<and> map fi_instance items' = map fi_instance (cl_flexItems cl)
           \<and> (\<forall>item' \<in> set items'. 0 \<le> fi_target item')"
proof -
  have tb: "\<forall>item \<in> set (cl_flexItems cl). fi_target item = fi_base item"
    using fresh by (auto simp: freshItems_def list_all_iff)
  have sane: "\<forall>item \<in> set (cl_flexItems cl). saneItem item"
    using ok tb by (auto simp: saneItem_def split: option.split)
  have total: "unconstrainedGrow (cl_flexItems cl) \<le> cl_totalFlexGrow cl"
    using fresh by (simp add: freshItems_def unconstrainedGrow_fresh)
  show ?thesis
  proof (cases "a > 0 \<and> cl_totalFlexGrow cl > 0")
    case True
    obtain items' where
      "growLoop (cl_flexItems cl) a (cl_totalFlexGrow cl) True = Inr items'"
      "\<forall>item \<in> set items'. saneItem item"
      "map fi_instance items' = map fi_instance (cl_flexItems cl)"
      using growLoop_sane [OF sane total, of a True] by auto
    then show ?thesis using True by (auto simp: distribute_def saneItem_def)
  next
    case False
    show ?thesis
    proof (cases "a < 0 \<and> nanPositive (cl_totalFlexShrinkFactors cl)")
      case True
      then show ?thesis using False ok
        by (auto simp: distribute_def shrinkItem_sane shrinkItem_instance)
    next
      case nothing: False
      then show ?thesis using False ok tb by (auto simp: distribute_def)
    qed
  qed
qed

lemma negativeBasisWorld_pass:
  "case processInstance (Suc (Suc 0)) noClasses negativeBasisWorld 0 of
     Inl e \<Rightarrow> False
   | Inr w \<Rightarrow> iwidth (w 1) = - 10 \<and> iwidth (w 2) = 110"
  by (simp add: negativeBasisWorld_def scene_eval style_eval sizing_eval flow_eval
      Let_def cong: let_weak_cong)

lemma nats_nonneg: "(x::real) \<in> \<nat> \<Longrightarrow> 0 \<le> x"
  by (auto elim: Nats_cases)

text \<open>
  Claim C7, as the code has it. In the shrink branch an item with a positive shrink
  factor gets a size of at least 0, however large the deficit and whatever its base
  size. For the items that \<open>layoutHorizontal\<close> or \<open>layoutVertical\<close> classify as flex
  items among children that carry computed styles within the numbers of the model: if
  every base size is non-negative, every grow factor is a natural number and their total
  is at most \<open>2^53\<close>, and no declared maximum is negative, then the distribution (grow
  loop, shrink branch, or neither) returns and assigns no negative size. The grow total
  and what remains of it when items reach a bound are sums and differences of the grow
  factors; the model computes them exactly, and so does the double arithmetic of the
  source when the factors are natural numbers with a total of at most \<open>2^53\<close>. Without
  that, rounding can bring the remaining total to \<open>0\<close> or below while items still grow,
  and the shares of these items are infinite or negative.
\<close>

theorem flex_sizes_not_negative:
  "(nanPositive (fi_flexShrink item) \<longrightarrow> 0 \<le> fi_target (shrinkItem deficit tot item))
   \<and> ((cl = fold (classifyHorizontal eng) cs (noneClassified w)
        \<or> cl = fold (classifyVertical eng) cs (noneClassified w))
       \<and> (\<forall>c \<in> set cs. computedStyles (w c) \<noteq> None \<and> modelled (stylesOf w c))
       \<and> (\<forall>item \<in> set (cl_flexItems cl). 0 \<le> fi_base item \<and> fi_flexGrow item \<in> \<nat>
             \<and> (\<forall>mx. fi_max item = Some mx \<longrightarrow> 0 \<le> mx))
       \<and> cl_totalFlexGrow cl \<le> 2 ^ 53
       \<longrightarrow> (\<exists>items'. distribute (cl_flexItems cl) a (cl_totalFlexGrow cl)
                         (cl_totalFlexShrinkFactors cl) = Inr items'
               \<and> map fi_instance items' = map fi_instance (cl_flexItems cl)
               \<and> (\<forall>item' \<in> set items'. 0 \<le> fi_target item')))"
proof (intro conjI impI)
  assume "nanPositive (fi_flexShrink item)"
  then show "0 \<le> fi_target (shrinkItem deficit tot item)" by (rule shrinkItem_nonneg)
next
  assume h: "(cl = fold (classifyHorizontal eng) cs (noneClassified w)
        \<or> cl = fold (classifyVertical eng) cs (noneClassified w))
       \<and> (\<forall>c \<in> set cs. computedStyles (w c) \<noteq> None \<and> modelled (stylesOf w c))
       \<and> (\<forall>item \<in> set (cl_flexItems cl). 0 \<le> fi_base item \<and> fi_flexGrow item \<in> \<nat>
             \<and> (\<forall>mx. fi_max item = Some mx \<longrightarrow> 0 \<le> mx))
       \<and> cl_totalFlexGrow cl \<le> 2 ^ 53"
  then have fresh: "freshItems cl"
    using freshItems_fold_horizontal [OF freshItems_none]
      freshItems_fold_vertical [OF freshItems_none] by auto
  have ok: "\<forall>item \<in> set (cl_flexItems cl). 0 \<le> fi_base item \<and> 0 \<le> fi_flexGrow item
               \<and> (\<forall>mx. fi_max item = Some mx \<longrightarrow> 0 \<le> mx)"
    using h nats_nonneg by blast
  show "\<exists>items'. distribute (cl_flexItems cl) a (cl_totalFlexGrow cl)
                         (cl_totalFlexShrinkFactors cl) = Inr items'
               \<and> map fi_instance items' = map fi_instance (cl_flexItems cl)
               \<and> (\<forall>item' \<in> set items'. 0 \<le> fi_target item')"
    using distribute_nonneg [OF fresh ok, of a] by blast
qed

text \<open>An item of base size 100 and shrink factor 1 under a deficit of 1000, and a row
  500 wide whose two children, 100 wide, declare \<open>flex-grow: 1\<close>.\<close>

theorem flex_sizes_not_negative_witness:
  "nanPositive (fi_flexShrink shrinkingItem) \<and>
   0 \<le> fi_target (shrinkItem (- 1000) 100 shrinkingItem) \<and>
   computedStyles (evenGrowWorld 1) \<noteq> None \<and> modelled (stylesOf evenGrowWorld 1) \<and>
   computedStyles (evenGrowWorld 2) \<noteq> None \<and> modelled (stylesOf evenGrowWorld 2) \<and>
   map fi_base (cl_flexItems (fold (classifyHorizontal noClasses) [1, 2] (noneClassified evenGrowWorld)))
     = [100, 100] \<and>
   map fi_flexGrow (cl_flexItems (fold (classifyHorizontal noClasses) [1, 2] (noneClassified evenGrowWorld)))
     = [1, 1] \<and>
   map fi_max (cl_flexItems (fold (classifyHorizontal noClasses) [1, 2] (noneClassified evenGrowWorld)))
     = [None, None] \<and>
   cl_totalFlexGrow (fold (classifyHorizontal noClasses) [1, 2] (noneClassified evenGrowWorld)) = 2 \<and>
   (\<exists>items'.
      distribute (cl_flexItems (fold (classifyHorizontal noClasses) [1, 2] (noneClassified evenGrowWorld)))
        300 (cl_totalFlexGrow (fold (classifyHorizontal noClasses) [1, 2] (noneClassified evenGrowWorld)))
        (cl_totalFlexShrinkFactors (fold (classifyHorizontal noClasses) [1, 2] (noneClassified evenGrowWorld)))
        = Inr items'
      \<and> list_all (\<lambda>item'. 0 \<le> fi_target item') items')"
proof -
  define cl where "cl = fold (classifyHorizontal noClasses) [1, 2] (noneClassified evenGrowWorld)"
  have sh: "nanPositive (fi_flexShrink shrinkingItem)"
    by (simp add: shrinkingItem_def nanPositive_def)
  have md: "\<forall>c \<in> set [1, 2]. computedStyles (evenGrowWorld c) \<noteq> None
      \<and> modelled (stylesOf evenGrowWorld c)"
    by (simp add: evenGrowWorld_def plainNode_def stylesOf_def modelled_def numericProperties_def
        parsedProperties_def)
  have items: "map fi_base (cl_flexItems cl) = [100, 100]"
    "map fi_flexGrow (cl_flexItems cl) = [1, 1]" "map fi_max (cl_flexItems cl) = [None, None]"
    "cl_totalFlexGrow cl = 2"
    by (simp_all add: cl_def evenGrowWorld_def scene_eval style_eval classifyHorizontal_def
        noneClassified_def baseSize_def nanPositive_def nanPlus_def nanTimes_def Let_def
        cong: let_weak_cong)
  have ok: "\<forall>item \<in> set (cl_flexItems cl). 0 \<le> fi_base item \<and> fi_flexGrow item \<in> \<nat>
      \<and> (\<forall>mx. fi_max item = Some mx \<longrightarrow> 0 \<le> mx)"
  proof
    fix item assume m: "item \<in> set (cl_flexItems cl)"
    then have "fi_base item \<in> set (map fi_base (cl_flexItems cl))"
      "fi_flexGrow item \<in> set (map fi_flexGrow (cl_flexItems cl))"
      "fi_max item \<in> set (map fi_max (cl_flexItems cl))"
      by simp_all
    then show "0 \<le> fi_base item \<and> fi_flexGrow item \<in> \<nat> \<and> (\<forall>mx. fi_max item = Some mx \<longrightarrow> 0 \<le> mx)"
      unfolding items by auto
  qed
  have tot: "cl_totalFlexGrow cl \<le> 2 ^ 53"
    unfolding items by simp
  have "0 \<le> fi_target (shrinkItem (- 1000) 100 shrinkingItem) \<and>
    (\<exists>items'. distribute (cl_flexItems cl) 300 (cl_totalFlexGrow cl)
       (cl_totalFlexShrinkFactors cl) = Inr items'
       \<and> map fi_instance items' = map fi_instance (cl_flexItems cl)
       \<and> (\<forall>item' \<in> set items'. 0 \<le> fi_target item'))"
    using flex_sizes_not_negative [of shrinkingItem "- 1000" 100 cl noClasses "[1, 2]"
        evenGrowWorld 300] sh ok md tot
    by (simp add: cl_def)
  then show ?thesis
    using sh items md by (auto simp: cl_def list_all_iff)
qed

text \<open>In a row 100 wide, the child with \<open>flex-grow: 1\<close>, \<open>flex-shrink: 0\<close> and
  \<open>flex-basis: -10\<close> ends the pass with width -10, assigned in the shrink branch (which
  takes the other child from 300 to 110).\<close>

theorem flex_negative_size_counterexample:
  "\<exists>w. processInstance (Suc (Suc 0)) noClasses negativeBasisWorld 0 = Inr w
       \<and> iwidth (w 1) < 0 \<and> iwidth (w 2) = 110"
  using negativeBasisWorld_pass by (auto split: sum.splits)

section \<open>The root's position, the debug driver and the re-run after fit-content\<close>

lemma absoluteRootWorld_pass:
  "case processInstance (Suc (Suc 0)) noClasses (absoluteRootWorld cx cy) 0 of
     Inl e \<Rightarrow> False
   | Inr w \<Rightarrow> ix (w 1) = 110 \<and> iy (w 1) = 110 \<and> iwidth (w 1) = 50 \<and> iheight (w 1) = 20"
  by (simp add: absoluteRootWorld_def scene_eval style_eval sizing_eval flow_eval Let_def
      cong: let_weak_cong)

lemma absoluteRootWorld_steps:
  "case processInstanceStepByStep (Suc (Suc 0)) noClasses (absoluteRootWorld cx cy) 0 of
     Inl e \<Rightarrow> False
   | Inr w \<Rightarrow> ix (w 1) = cx \<and> iy (w 1) = cy \<and> iwidth (w 1) = 50 \<and> iheight (w 1) = 20"
  by (simp add: absoluteRootWorld_def scene_eval style_eval sizing_eval flow_eval Let_def
      cong: let_weak_cong)

text \<open>
  Claim C8, at the input where the code departs from it. A root whose style declares
  \<open>position: absolute\<close> (with \<open>padding: 10\<close>, at (100, 100)) has one child. A pass of
  \<open>processInstance\<close> treats the root as relative and lays the child out at (110, 110).
  The generator of the debug driver, driven to its end, does not: the flow layout of
  the root never runs and the child stays where it was.
\<close>

theorem debug_driver_keeps_root_position:
  "\<exists>w w'. processInstance (Suc (Suc 0)) noClasses (absoluteRootWorld cx cy) 0 = Inr w
        \<and> processInstanceStepByStep (Suc (Suc 0)) noClasses (absoluteRootWorld cx cy) 0 = Inr w'
        \<and> ix (w 1) = 110 \<and> iy (w 1) = 110 \<and> ix (w' 1) = cx \<and> iy (w' 1) = cy"
  using absoluteRootWorld_pass [of cx cy] absoluteRootWorld_steps [of cx cy]
  by (auto split: sum.splits)

theorem debug_driver_keeps_root_position_witness:
  "\<exists>w w'. processInstance (Suc (Suc 0)) noClasses (absoluteRootWorld 0 0) 0 = Inr w
        \<and> processInstanceStepByStep (Suc (Suc 0)) noClasses (absoluteRootWorld 0 0) 0 = Inr w'
        \<and> ix (w 1) = 110 \<and> iy (w 1) = 110 \<and> ix (w' 1) = 0 \<and> iy (w' 1) = 0"
  using debug_driver_keeps_root_position [of 0 0] by simp

text \<open>
  Claim C9. While debug mode is armed (the flag \<open>debugMode\<close> is set, as it is from
  \<open>enableDebugMode\<close> until the steps are exhausted or the mode is disabled), a call of
  \<open>processInstance\<close> on any node returns at once with the store as it was: no node's
  \<open>x\<close>, \<open>y\<close>, width or height changes.
\<close>

theorem debug_mode_suppresses_pass:
  "debugMode d \<Longrightarrow>
   debugProcessInstance fuel d eng w i = Inr w
   \<and> (\<exists>w'. debugProcessInstance fuel d eng w i = Inr w'
        \<and> (\<forall>n. ix (w' n) = ix (w n) \<and> iy (w' n) = iy (w n)
               \<and> iwidth (w' n) = iwidth (w n) \<and> iheight (w' n) = iheight (w n)))"
  by (simp add: debugProcessInstance_def)

theorem debug_mode_suppresses_pass_witness:
  "debugMode (enableDebugMode \<lparr> debugMode = False \<rparr>) \<and>
   debugProcessInstance (Suc (Suc 0)) (enableDebugMode \<lparr> debugMode = False \<rparr>)
     noClasses (absoluteRootWorld 0 0) 0 = Inr (absoluteRootWorld 0 0) \<and>
   debugProcessInstance (Suc (Suc 0)) (disableDebugMode (enableDebugMode \<lparr> debugMode = False \<rparr>))
     noClasses (absoluteRootWorld 0 0) 0
     = processInstance (Suc (Suc 0)) noClasses (absoluteRootWorld 0 0) 0"
proof -
  have armed: "debugMode (enableDebugMode \<lparr> debugMode = False \<rparr>)"
    by (simp add: enableDebugMode_def)
  have off: "\<not> debugMode (disableDebugMode (enableDebugMode \<lparr> debugMode = False \<rparr>))"
    by (simp add: disableDebugMode_def)
  have "debugProcessInstance (Suc (Suc 0)) (enableDebugMode \<lparr> debugMode = False \<rparr>)
     noClasses (absoluteRootWorld 0 0) 0 = Inr (absoluteRootWorld 0 0)"
    using debug_mode_suppresses_pass [OF armed] by blast
  moreover have "debugProcessInstance (Suc (Suc 0))
     (disableDebugMode (enableDebugMode \<lparr> debugMode = False \<rparr>))
     noClasses (absoluteRootWorld 0 0) 0
     = processInstance (Suc (Suc 0)) noClasses (absoluteRootWorld 0 0) 0"
    using off unfolding debugProcessInstance_def by (rule if_P)
  ultimately show ?thesis using armed by blast
qed










end
